theory Spec2Isabelle
  imports Complex_Main "HOL-Library.Word"
begin

unbundle bit_operations_syntax

section \<open>The scenario build of \<open>ids_dataset.cc\<close>\<close>

text \<open>
  The program is one \<open>main\<close> function: it creates the node containers, assigns the
  addresses, and installs every server, benign client and attack application with a
  start and a stop time. The embedding follows \<open>main\<close> block by block. What the
  simulator library does at run time (packet delivery, routing, radio) is outside of it.

  Times are C++ \<open>double\<close>s in the source. Every time expression is read here at its
  exact rational value (\<open>0.1\<close> is one tenth); the rounding of binary floating point is
  not modelled.
\<close>

subsection \<open>Nodes\<close>

text \<open>A node is named by its container and its index in it (\<open>enterpriseClients.Get(i)\<close>).\<close>

datatype node =
    CoreRouter nat
  | DistributionSwitch nat
  | AccessSwitch nat
  | EnterpriseClient nat
  | DmzServer nat
  | VpnServer nat
  | WifiAp nat
  | WifiSta nat
  | RemoteClient nat

text \<open>The sizes given to \<open>Create\<close>.\<close>

definition enterpriseClients_N :: nat where "enterpriseClients_N = 10"
definition dmzServers_N :: nat where "dmzServers_N = 5"
definition wifiStaNodes_N :: nat where "wifiStaNodes_N = 10"
definition remoteClients_N :: nat where "remoteClients_N = 10"

subsection \<open>Addresses\<close>

type_synonym ipv4 = "32 word"

text \<open>\<open>Ipv4Address("a.b.c.d")\<close>, for octets below 256.\<close>

definition ip :: "nat \<Rightarrow> nat \<Rightarrow> nat \<Rightarrow> nat \<Rightarrow> ipv4" where
  "ip a b c d = of_nat (((a * 256 + b) * 256 + c) * 256 + d)"

datatype error = AddressSpaceExhausted | InvalidAddress

text \<open>
  Modelled from the spec: \<open>Ipv4AddressHelper\<close> (the AddressAllocator of the
  specification) belongs to the simulator library and is not part of the sources. The
  model keeps the network of the last \<open>SetBase\<close>, its mask and a cursor over the host
  part that starts at 1; an assignment hands out \<open>network | cursor\<close> and advances the
  cursor, and fails with \<open>AddressSpaceExhausted\<close> once the host part would reach the
  broadcast address; \<open>NewNetwork\<close> moves to the next block of the same size.
\<close>

record address_helper =
  network :: ipv4
  mask :: ipv4
  address :: ipv4

definition SetBase :: "ipv4 \<Rightarrow> ipv4 \<Rightarrow> address_helper" where
  "SetBase n m = \<lparr>network = n, mask = m, address = 1\<rparr>"

definition NewAddress :: "address_helper \<Rightarrow> error + (ipv4 \<times> address_helper)" where
  "NewAddress h =
     (if unat (address h) < unat (NOT (mask h))
      then Inr (network h OR address h, h\<lparr>address := address h + 1\<rparr>)
      else Inl AddressSpaceExhausted)"

definition NewNetwork :: "address_helper \<Rightarrow> address_helper" where
  "NewNetwork h = h\<lparr>network := network h + (NOT (mask h) + 1), address := 1\<rparr>"

text \<open>\<open>Assign(devices)\<close>: one new address per device of the container, in order.\<close>

primrec Assign :: "nat \<Rightarrow> address_helper \<Rightarrow> error + (ipv4 list \<times> address_helper)" where
  "Assign 0 h = Inr ([], h)"
| "Assign (Suc n) h =
     (case NewAddress h of
        Inl e \<Rightarrow> Inl e
      | Inr (a, h') \<Rightarrow>
          (case Assign n h' of
             Inl e \<Rightarrow> Inl e
           | Inr (as, h'') \<Rightarrow> Inr (a # as, h'')))"

text \<open>A subnet is a network address with its mask; its range is every address that the
  mask maps to the network address.\<close>

type_synonym subnet = "ipv4 \<times> ipv4"

definition subnet_range :: "subnet \<Rightarrow> ipv4 set" where
  "subnet_range s = {a. a AND snd s = fst s}"

definition subnet_of :: "address_helper \<Rightarrow> subnet" where
  "subnet_of h = (network h, mask h)"

text \<open>
  The interface containers that \<open>main\<close> keeps, and the subnets in the order of the
  \<open>SetBase\<close> calls.
\<close>

record directory =
  p2pInterfaces1 :: "ipv4 list"
  p2pInterfaces2 :: "ipv4 list"
  vpnInterfaces :: "ipv4 list"
  enterpriseInterfaces :: "ipv4 list"
  accessToDistInterfaces :: "ipv4 list"
  dmzInterfaces :: "ipv4 list"
  wifiApToDistInterfaces :: "ipv4 list"
  apInterface :: "ipv4 list"
  staInterfaces :: "ipv4 list"
  vpnClientInterfaces :: "ipv4 list list"
  subnets :: "subnet list"

text \<open>
  The base addresses written in \<open>main\<close>, in the order of the \<open>SetBase\<close> calls: the two
  core links, the VPN link, the enterprise, access, DMZ, Wi-Fi AP and Wi-Fi networks.
\<close>

record bases =
  core1Base :: ipv4
  core2Base :: ipv4
  vpnBase :: ipv4
  enterpriseBase :: ipv4
  accessBase :: ipv4
  dmzBase :: ipv4
  wifiApBase :: ipv4
  wifiBase :: ipv4

definition main_bases :: bases where
  "main_bases = \<lparr>core1Base = ip 10 1 0 0, core2Base = ip 10 1 0 4, vpnBase = ip 10 1 0 8,
     enterpriseBase = ip 10 1 1 0, accessBase = ip 10 1 2 0, dmzBase = ip 10 3 1 0,
     wifiApBase = ip 10 1 3 0, wifiBase = ip 10 2 1 0\<rparr>"

definition mask30 :: ipv4 where "mask30 = ip 255 255 255 252"
definition mask24 :: ipv4 where "mask24 = ip 255 255 255 0"

text \<open>
  \<open>SetBase; Assign(devices)\<close> as one step that also logs the subnet. The
  \<open>NewNetwork\<close> that follows each \<open>Assign\<close> in \<open>main\<close> only moves the helper's
  network, and the next \<open>SetBase\<close> overwrites it.
\<close>

definition assign_net ::
  "ipv4 \<Rightarrow> ipv4 \<Rightarrow> nat \<Rightarrow> error + (ipv4 list \<times> subnet)" where
  "assign_net base m n =
     (case Assign n (SetBase base m) of
        Inl e \<Rightarrow> Inl e
      | Inr (as, h) \<Rightarrow> Inr (as, subnet_of h))"

text \<open>
  The loop over \<open>vpnDevices\<close>: link \<open>i\<close> gets the /30 whose base is the string
  \<open>"10.1.0." << (i * 4 + 20)\<close>; a last octet above 255 is not an address.
\<close>

primrec assign_vpn_links :: "nat \<Rightarrow> nat \<Rightarrow> error + (ipv4 list list \<times> subnet list)" where
  "assign_vpn_links i 0 = Inr ([], [])"
| "assign_vpn_links i (Suc k) =
     (if 255 < i * 4 + 20 then Inl InvalidAddress
      else case assign_net (ip 10 1 0 (i * 4 + 20)) mask30 2 of
        Inl e \<Rightarrow> Inl e
      | Inr (as, s) \<Rightarrow>
          (case assign_vpn_links (i + 1) k of
             Inl e \<Rightarrow> Inl e
           | Inr (ass, ss) \<Rightarrow> Inr (as # ass, s # ss)))"

definition bind_net ::
  "error + (ipv4 list \<times> subnet) \<Rightarrow> (ipv4 list \<Rightarrow> subnet \<Rightarrow> error + 'a) \<Rightarrow> error + 'a" where
  "bind_net r f = (case r of Inl e \<Rightarrow> Inl e | Inr (as, s) \<Rightarrow> f as s)"

text \<open>
  The address assignment of \<open>main\<close>. The device counts are those of the containers: a
  point-to-point link has two devices, the enterprise network the clients and the access
  switch, the DMZ network the servers and a distribution switch; the Wi-Fi network
  assigns the access point and then the stations under one \<open>SetBase\<close>.
\<close>

definition assign_addresses :: "bases \<Rightarrow> nat \<Rightarrow> nat \<Rightarrow> nat \<Rightarrow> nat \<Rightarrow> error + directory" where
  "assign_addresses b nEnt nDmz nSta nRemote =
     bind_net (assign_net (core1Base b) mask30 2) (\<lambda>p1 s1.
     bind_net (assign_net (core2Base b) mask30 2) (\<lambda>p2 s2.
     bind_net (assign_net (vpnBase b) mask30 2) (\<lambda>vpn s3.
     bind_net (assign_net (enterpriseBase b) mask24 (nEnt + 1)) (\<lambda>ent s4.
     bind_net (assign_net (accessBase b) mask24 2) (\<lambda>acc s5.
     bind_net (assign_net (dmzBase b) mask24 (nDmz + 1)) (\<lambda>dmz s6.
     bind_net (assign_net (wifiApBase b) mask24 2) (\<lambda>wap s7.
     bind_net (assign_net (wifiBase b) mask24 (1 + nSta)) (\<lambda>wifi s8.
       (case assign_vpn_links 0 nRemote of
          Inl e \<Rightarrow> Inl e
        | Inr (links, ss) \<Rightarrow>
            Inr \<lparr>p2pInterfaces1 = p1, p2pInterfaces2 = p2, vpnInterfaces = vpn,
                 enterpriseInterfaces = ent, accessToDistInterfaces = acc,
                 dmzInterfaces = dmz, wifiApToDistInterfaces = wap,
                 apInterface = take 1 wifi, staInterfaces = drop 1 wifi,
                 vpnClientInterfaces = links,
                 subnets = [s1, s2, s3, s4, s5, s6, s7, s8] @ ss\<rparr>)))))))))"

definition main_directory :: "error + directory" where
  "main_directory =
     assign_addresses main_bases enterpriseClients_N dmzServers_N wifiStaNodes_N remoteClients_N"

text \<open>An executable test that two subnets share no address.\<close>

definition separate :: "subnet \<Rightarrow> subnet \<Rightarrow> bool" where
  "separate s t = (fst s AND snd t \<noteq> fst t AND snd s)"

fun pairwise_separate :: "subnet list \<Rightarrow> bool" where
  "pairwise_separate [] = True"
| "pairwise_separate (s # ss) = (list_all (separate s) ss \<and> pairwise_separate ss)"

subsection \<open>Addresses the generators use\<close>

text \<open>
  \<open>GetAddress(i)\<close> of an interface container. \<open>main\<close> asks for the literal
  indices 0 to 4 of the DMZ container and 0 of the VPN and first core containers, and its
  containers hold them; an index beyond a container is not modelled.
\<close>

definition GetAddress :: "ipv4 list \<Rightarrow> nat \<Rightarrow> ipv4" where
  "GetAddress c i = c ! i"

definition GetAny :: ipv4 where "GetAny = 0"

definition webServerIp :: "directory \<Rightarrow> ipv4" where
  "webServerIp dir = GetAddress (dmzInterfaces dir) 0"
definition emailServerIp :: "directory \<Rightarrow> ipv4" where
  "emailServerIp dir = GetAddress (dmzInterfaces dir) 1"
definition dnsServerIp :: "directory \<Rightarrow> ipv4" where
  "dnsServerIp dir = GetAddress (dmzInterfaces dir) 2"
definition ftpServerIp :: "directory \<Rightarrow> ipv4" where
  "ftpServerIp dir = GetAddress (dmzInterfaces dir) 3"
definition echoServerIp :: "directory \<Rightarrow> ipv4" where
  "echoServerIp dir = GetAddress (dmzInterfaces dir) 4"
definition targetServerIp :: "directory \<Rightarrow> ipv4" where
  "targetServerIp dir = GetAddress (dmzInterfaces dir) 0"
definition fakeServerIp :: "directory \<Rightarrow> ipv4" where
  "fakeServerIp dir = GetAddress (dmzInterfaces dir) 1"
definition httpServerIp :: "directory \<Rightarrow> ipv4" where
  "httpServerIp dir = GetAddress (dmzInterfaces dir) 0"
definition sshServerIp :: "directory \<Rightarrow> ipv4" where
  "sshServerIp dir = GetAddress (dmzInterfaces dir) 3"
definition cncServerIp :: "directory \<Rightarrow> ipv4" where
  "cncServerIp dir = GetAddress (dmzInterfaces dir) 4"
definition vpnServerIp :: "directory \<Rightarrow> ipv4" where
  "vpnServerIp dir = GetAddress (vpnInterfaces dir) 0"

text \<open>
  \<open>GetObject<Ipv4>()->GetAddress(1, 0).GetLocal()\<close>: the address of interface 1, the
  first interface the node was given an address on. For the core router that is its end
  of the first core link, for DMZ server 0 its DMZ address.
\<close>

definition coreRouterIp :: "directory \<Rightarrow> ipv4" where
  "coreRouterIp dir = GetAddress (p2pInterfaces1 dir) 0"
definition targetIp :: "directory \<Rightarrow> ipv4" where
  "targetIp dir = GetAddress (dmzInterfaces dir) 0"

subsection \<open>Scheduled applications\<close>

datatype transport = Tcp | Udp

datatype app_helper =
  PacketSinkHelper | UdpEchoServerHelper | OnOffHelper | BulkSendHelper | UdpEchoClientHelper

text \<open>The block of \<open>main\<close> that installs an application.\<close>

datatype origin =
    HttpServer | HttpsServer | SmtpServer | ImapServer | Pop3Server | DnsServer
  | FtpServer | SshServer | EchoServer | StreamServer | FakeHttpServer | CncServer
  | Http | Https | Email | Dns | Ftp | Ssh | Echo | Stream
  | SynFlood | UdpFlood | IcmpFlood | PortScan | Mitm | FtpBruteForce | SqlInjection
  | SshBruteForce | FtpLoginFlood | BotComm | VpnFlood | CredentialStuffing | Xss
  | ArpSpoof | ZeroDay | Ddos

text \<open>
  One installed application with its \<open>Start\<close> and \<open>Stop\<close>: the node it is installed
  on, the address and port it sends to (a server listens on \<open>GetAny\<close> and its own
  port), the \<open>PacketSize\<close> or \<open>MaxBytes\<close> attribute (0 where none is set or it is set
  to 0) and the other attributes whose value is drawn at build time, in source order.
  Attributes that are constants of the source (data rates, on and off patterns given as
  strings, packet counts) are not recorded.
\<close>

record event =
  provenance :: origin
  application :: app_helper
  socket :: transport
  source :: node
  target :: ipv4
  port :: nat
  bytes :: nat
  sampled :: "rat list"
  start :: rat
  stop :: rat

definition install ::
  "origin \<Rightarrow> app_helper \<Rightarrow> transport \<Rightarrow> node \<Rightarrow> ipv4 \<Rightarrow> nat \<Rightarrow> nat \<Rightarrow> rat list \<Rightarrow> rat \<Rightarrow> rat \<Rightarrow> event"
  where
  "install pr h t n a p sz xs st sp =
     \<lparr>provenance = pr, application = h, socket = t, source = n, target = a, port = p,
      bytes = sz, sampled = xs, start = st, stop = sp\<rparr>"

subsection \<open>Random draws\<close>

text \<open>
  The random variable objects of the simulator library and the C library's \<open>rand()\<close>
  are not part of the sources; the values they return are a parameter of the build.
  An object that is created once and drawn from in a loop is named after its variable;
  \<open>GetValue d g k\<close> and \<open>GetInteger d g k\<close> are the value its call number \<open>k\<close>
  returns, counted from 0. An object created inside a loop body (the Wi-Fi and remote
  loops do that) is a fresh object in every iteration and is drawn from once: for those
  \<open>k\<close> is the iteration. \<open>c_rand d k\<close> is the value of the call number \<open>k\<close> of
  \<open>rand()\<close> in the whole program.
\<close>

datatype gen =
    RandPayloadSize | RandInterRequestTime | RandProtocol | EmailSizeRand | EmailIntervalRand
  | DnsIntervalRand | DnsPacketSizeRand | FtpFileSizeRand | FtpTransferIntervalRand
  | SshSessionSizeRand | SshIdleTimeRand | PacketSizeRand | IntervalRand | MaxPacketsRand
  | StreamPacketSizeRand | StreamOnTimeRand | StreamOffTimeRand | StreamDataRateRand
  | Wifi_httpPacketSize | Wifi_httpsPacketSize | EmailProtocolRand | Wifi_emailSizeRand
  | Wifi_packetSizeRand | StreamPacketSizeRandWiFi | StreamOnTimeRandWiFi
  | StreamOffTimeRandWiFi | StreamDataRateRandWiFi | Wifi_ftpFileSizeRand
  | Wifi_sshSessionSizeRand | Wifi_echoPacketSizeRand | Remote_randProtocol

record draws =
  GetValue :: "gen \<Rightarrow> nat \<Rightarrow> rat"
  GetInteger :: "gen \<Rightarrow> nat \<Rightarrow> nat"
  c_rand :: "nat \<Rightarrow> nat"

text \<open>A \<open>double\<close> stored into an unsigned attribute: the fraction is cut off.\<close>

definition trunc :: "rat \<Rightarrow> nat" where
  "trunc v = nat \<lfloor>v\<rfloor>"

text \<open>The number of draws an object has made before iteration \<open>i\<close> of an outer loop whose
  iteration \<open>i'\<close> draws \<open>count i'\<close> times.\<close>

definition drawn_before :: "(nat \<Rightarrow> nat) \<Rightarrow> nat \<Rightarrow> nat" where
  "drawn_before count i = sum_list (map count [0..<i])"

text \<open>\<open>for (uint32_t i = 0; i < n; ++i)\<close> collecting what each iteration installs.\<close>

definition for_each :: "nat \<Rightarrow> (nat \<Rightarrow> 'a list) \<Rightarrow> 'a list" where
  "for_each n body = concat (map body [0..<n])"

subsection \<open>Servers\<close>

definition appStartTime :: rat where "appStartTime = 1.0"
definition appStopTime :: rat where "appStopTime = 1500.0"

definition servers :: "rat \<Rightarrow> rat \<Rightarrow> event list" where
  "servers t0 t1 =
    [install HttpServer PacketSinkHelper Tcp (DmzServer 0) GetAny 80 0 [] t0 t1,
     install HttpsServer PacketSinkHelper Tcp (DmzServer 0) GetAny 443 0 [] t0 t1,
     install SmtpServer PacketSinkHelper Tcp (DmzServer 1) GetAny 25 0 [] t0 t1,
     install ImapServer PacketSinkHelper Tcp (DmzServer 1) GetAny 143 0 [] t0 t1,
     install Pop3Server PacketSinkHelper Tcp (DmzServer 1) GetAny 110 0 [] t0 t1,
     install DnsServer UdpEchoServerHelper Udp (DmzServer 2) GetAny 53 0 [] t0 t1,
     install FtpServer PacketSinkHelper Tcp (DmzServer 3) GetAny 21 0 [] t0 t1,
     install SshServer PacketSinkHelper Tcp (DmzServer 3) GetAny 22 0 [] t0 t1,
     install EchoServer UdpEchoServerHelper Udp (DmzServer 4) GetAny 9 0 [] t0 t1,
     install StreamServer PacketSinkHelper Udp (DmzServer 0) GetAny 554 0 [] t0 t1]"

subsection \<open>Benign clients: enterprise\<close>

text \<open>
  The HTTP and HTTPS clients of one loop share the objects \<open>randPayloadSize\<close> and
  \<open>randInterRequestTime\<close>: iteration \<open>i\<close> makes the draws \<open>2 i\<close> (HTTP) and
  \<open>2 i + 1\<close> (HTTPS) of each.
\<close>

definition enterprise_http_https :: "directory \<Rightarrow> draws \<Rightarrow> nat \<Rightarrow> rat \<Rightarrow> event list" where
  "enterprise_http_https dir d n t1 = for_each n (\<lambda>i.
    [install Http OnOffHelper Tcp (EnterpriseClient i) (webServerIp dir) 80
       (trunc (GetValue d RandPayloadSize (2 * i))) []
       (5.0 + of_nat i + GetValue d RandInterRequestTime (2 * i)) t1,
     install Https OnOffHelper Tcp (EnterpriseClient i) (webServerIp dir) 443
       (trunc (GetValue d RandPayloadSize (2 * i + 1))) []
       (6.0 + of_nat i + GetValue d RandInterRequestTime (2 * i + 1)) t1])"

text \<open>The port the drawn \<open>protocolChoice\<close> selects: SMTP, IMAP, else POP3.\<close>

definition email_port :: "nat \<Rightarrow> nat" where
  "email_port protocolChoice =
     (if protocolChoice = 0 then 25 else if protocolChoice = 1 then 143 else 110)"

definition enterprise_email :: "directory \<Rightarrow> draws \<Rightarrow> nat \<Rightarrow> rat \<Rightarrow> event list" where
  "enterprise_email dir d n t1 = for_each n (\<lambda>i. for_each 10 (\<lambda>j.
    [install Email BulkSendHelper Tcp (EnterpriseClient i) (emailServerIp dir)
       (email_port (GetInteger d RandProtocol i))
       (trunc (GetValue d EmailSizeRand (10 * i + j))) []
       (10.0 + of_nat (i * 2) + GetValue d EmailIntervalRand (10 * i + j)) t1]))"

definition dnsRequestCount :: "nat \<Rightarrow> nat" where
  "dnsRequestCount i = 20 + i * 5"

definition enterprise_dns :: "directory \<Rightarrow> draws \<Rightarrow> nat \<Rightarrow> rat \<Rightarrow> event list" where
  "enterprise_dns dir d n t1 = for_each n (\<lambda>i. for_each (dnsRequestCount i) (\<lambda>j.
    [install Dns UdpEchoClientHelper Udp (EnterpriseClient i) (dnsServerIp dir) 53
       (trunc (GetValue d DnsPacketSizeRand (drawn_before dnsRequestCount i + j)))
       [GetValue d DnsIntervalRand (drawn_before dnsRequestCount i + j)]
       (15.0 + of_nat i * 0.5 + of_nat j * 0.1) t1]))"

definition ftpTransferCount :: "nat \<Rightarrow> nat" where
  "ftpTransferCount i = 3 + i mod 3"

definition enterprise_ftp :: "directory \<Rightarrow> draws \<Rightarrow> nat \<Rightarrow> rat \<Rightarrow> event list" where
  "enterprise_ftp dir d n t1 = for_each n (\<lambda>i. for_each (ftpTransferCount i) (\<lambda>j.
    [install Ftp BulkSendHelper Tcp (EnterpriseClient i) (ftpServerIp dir) 21
       (trunc (GetValue d FtpFileSizeRand (drawn_before ftpTransferCount i + j))) []
       (20.0 + of_nat i * 0.5
          + of_nat j * GetValue d FtpTransferIntervalRand (drawn_before ftpTransferCount i + j))
       t1]))"

definition sshSessionCount :: "nat \<Rightarrow> nat" where
  "sshSessionCount i = 2 + i mod 3"

text \<open>The SSH clients address \<open>ftpServerIp\<close>: FTP and SSH are on the same DMZ server.
  The object \<open>sshIntervalRand\<close> of the source is created and never drawn from.\<close>

definition enterprise_ssh :: "directory \<Rightarrow> draws \<Rightarrow> nat \<Rightarrow> rat \<Rightarrow> event list" where
  "enterprise_ssh dir d n t1 = for_each n (\<lambda>i. for_each (sshSessionCount i) (\<lambda>j.
    [install Ssh BulkSendHelper Tcp (EnterpriseClient i) (ftpServerIp dir) 22
       (trunc (GetValue d SshSessionSizeRand (drawn_before sshSessionCount i + j))) []
       (25.0 + of_nat i * 0.5
          + of_nat j * GetValue d SshIdleTimeRand (drawn_before sshSessionCount i + j))
       t1]))"

definition enterprise_echo :: "directory \<Rightarrow> draws \<Rightarrow> nat \<Rightarrow> rat \<Rightarrow> event list" where
  "enterprise_echo dir d n t1 = for_each n (\<lambda>i.
    [install Echo UdpEchoClientHelper Udp (EnterpriseClient i) (echoServerIp dir) 9
       (GetInteger d PacketSizeRand i)
       [of_nat (GetInteger d MaxPacketsRand i), GetValue d IntervalRand i]
       (12.0 + of_nat i * 0.5) t1])"

text \<open>The streaming clients address the literal \<open>Ipv4Address("10.3.1.1")\<close>.\<close>

definition enterprise_stream :: "directory \<Rightarrow> draws \<Rightarrow> nat \<Rightarrow> rat \<Rightarrow> event list" where
  "enterprise_stream dir d n t1 = for_each n (\<lambda>i.
    [install Stream OnOffHelper Udp (EnterpriseClient i) (ip 10 3 1 1) 554
       (GetInteger d StreamPacketSizeRand i)
       [GetValue d StreamDataRateRand i * 1000000, GetValue d StreamOnTimeRand i,
        GetValue d StreamOffTimeRand i]
       (100.0 + of_nat i * 0.5) t1])"

subsection \<open>Benign clients: Wi-Fi\<close>

definition wifi_http_https :: "directory \<Rightarrow> draws \<Rightarrow> nat \<Rightarrow> rat \<Rightarrow> event list" where
  "wifi_http_https dir d n t1 = for_each n (\<lambda>i.
    [install Http BulkSendHelper Tcp (WifiSta i) (webServerIp dir) 80
       (GetInteger d Wifi_httpPacketSize i) [] (6.0 + of_nat i * 0.75) t1,
     install Https BulkSendHelper Tcp (WifiSta i) (webServerIp dir) 443
       (GetInteger d Wifi_httpsPacketSize i) [] (6.5 + of_nat i * 0.75) t1])"

definition wifi_email :: "directory \<Rightarrow> draws \<Rightarrow> nat \<Rightarrow> rat \<Rightarrow> event list" where
  "wifi_email dir d n t1 = for_each n (\<lambda>i.
    [install Email BulkSendHelper Tcp (WifiSta i) (emailServerIp dir)
       (email_port (GetInteger d EmailProtocolRand i))
       (GetInteger d Wifi_emailSizeRand i) [] (10.0 + of_nat i * 0.5) t1])"

definition wifi_dns :: "directory \<Rightarrow> draws \<Rightarrow> nat \<Rightarrow> rat \<Rightarrow> event list" where
  "wifi_dns dir d n t1 = for_each n (\<lambda>i.
    [install Dns UdpEchoClientHelper Udp (WifiSta i) (dnsServerIp dir) 53
       (GetInteger d Wifi_packetSizeRand i) [] (15.0 + of_nat i * 0.2) t1])"

definition wifi_stream :: "directory \<Rightarrow> draws \<Rightarrow> nat \<Rightarrow> rat \<Rightarrow> event list" where
  "wifi_stream dir d n t1 = for_each n (\<lambda>i.
    [install Stream OnOffHelper Udp (WifiSta i) (ip 10 3 1 1) 554
       (GetInteger d StreamPacketSizeRandWiFi i)
       [GetValue d StreamDataRateRandWiFi i * 1000000, GetValue d StreamOnTimeRandWiFi i,
        GetValue d StreamOffTimeRandWiFi i]
       (100.0 + of_nat i * 0.3) t1])"

definition wifi_ftp :: "directory \<Rightarrow> draws \<Rightarrow> nat \<Rightarrow> rat \<Rightarrow> event list" where
  "wifi_ftp dir d n t1 = for_each n (\<lambda>i.
    [install Ftp BulkSendHelper Tcp (WifiSta i) (ftpServerIp dir) 21
       (GetInteger d Wifi_ftpFileSizeRand i) [] (20.0 + of_nat i * 1.0) t1])"

definition wifi_ssh :: "directory \<Rightarrow> draws \<Rightarrow> nat \<Rightarrow> rat \<Rightarrow> event list" where
  "wifi_ssh dir d n t1 = for_each n (\<lambda>i.
    [install Ssh BulkSendHelper Tcp (WifiSta i) (ftpServerIp dir) 22
       (GetInteger d Wifi_sshSessionSizeRand i) [] (25.0 + of_nat i * 1.2) t1])"

definition wifi_echo :: "directory \<Rightarrow> draws \<Rightarrow> nat \<Rightarrow> rat \<Rightarrow> event list" where
  "wifi_echo dir d n t1 = for_each n (\<lambda>i.
    [install Echo UdpEchoClientHelper Udp (WifiSta i) (echoServerIp dir) 9
       (GetInteger d Wifi_echoPacketSizeRand i) [] (12.0 + of_nat i * 0.5) t1])"

subsection \<open>Benign clients: remote\<close>

text \<open>
  One loop installs all eight applications of a remote client and calls \<open>rand()\<close>
  fourteen times per iteration; \<open>r k\<close> below is the call number \<open>k\<close> of iteration
  \<open>i\<close>. The HTTP, DNS and streaming clients stop at times of their own.
\<close>

definition remote_apps :: "directory \<Rightarrow> draws \<Rightarrow> nat \<Rightarrow> rat \<Rightarrow> event list" where
  "remote_apps dir d n t1 = for_each n (\<lambda>i.
    let r = (\<lambda>k. c_rand d (14 * i + k)) in
    [install Http BulkSendHelper Tcp (RemoteClient i) (webServerIp dir) 80
       (256 * 1024 + r 0 mod (1 * 1024 * 1024)) []
       (5.0 + of_nat (i * 10)) (30.0 + of_nat (i * 20)),
     install Https BulkSendHelper Tcp (RemoteClient i) (webServerIp dir) 443
       (128 * 1024 + r 1 mod (1 * 1024 * 1024)) []
       (12.0 + of_nat (i * 15)) t1,
     install Email BulkSendHelper Tcp (RemoteClient i) (emailServerIp dir)
       (email_port (GetInteger d Remote_randProtocol i))
       (20 * 1024 + r 2 mod (80 * 1024)) []
       (20.0 + of_nat (i * 10) + of_nat (r 3 mod 15)) t1,
     install Dns UdpEchoClientHelper Udp (RemoteClient i) (dnsServerIp dir) 53
       48 [1.5 + of_nat (r 4 mod 3)]
       (30.0 + of_nat (i * 5)) (150.0 + of_nat (i * 10)),
     install Ftp BulkSendHelper Tcp (RemoteClient i) (ftpServerIp dir) 21
       (200 * 1024 + r 5 mod (3 * 1024 * 1024)) []
       (40.0 + of_nat (i * 8) + of_nat (r 6 mod 20)) t1,
     install Ssh BulkSendHelper Tcp (RemoteClient i) (ftpServerIp dir) 22
       (100 * 1024 + r 7 mod (300 * 1024)) []
       (50.0 + of_nat (i * 6) + of_nat (r 8 mod 10)) t1,
     install Echo UdpEchoClientHelper Udp (RemoteClient i) (echoServerIp dir) 9
       (256 + r 10 mod 512) [2.0 + of_nat (r 9 mod 2)]
       (55.0 + of_nat (i * 4) + of_nat (r 11 mod 20)) t1,
     install Stream OnOffHelper Udp (RemoteClient i) (ip 10 3 1 1) 554
       (512 + r 12 mod 1024) []
       (60.0 + of_nat (i * 3) + of_nat (r 13 mod 20)) 160.0])"

subsection \<open>Attacks\<close>

text \<open>
  Every attack block declares its window and its number of attacking clients as local
  variables and loops over \<open>i < clients && i < container.GetN()\<close>. The blocks below
  take those variables as arguments; \<open>main_timeline\<close> passes the values of the source.
\<close>

definition syn_flood :: "directory \<Rightarrow> rat \<Rightarrow> rat \<Rightarrow> nat \<Rightarrow> nat \<Rightarrow> event list" where
  "syn_flood dir attackStartTime attackStopTime numClients n =
     for_each (min numClients n) (\<lambda>i.
       [install SynFlood BulkSendHelper Tcp (RemoteClient i) (webServerIp dir) 80 0 []
          (attackStartTime + of_nat i * 0.1) attackStopTime])"

definition udp_flood :: "directory \<Rightarrow> rat \<Rightarrow> rat \<Rightarrow> nat \<Rightarrow> nat \<Rightarrow> event list" where
  "udp_flood dir udpFloodStartTime udpFloodStopTime floodClients n =
     for_each (min floodClients n) (\<lambda>i.
       [install UdpFlood OnOffHelper Udp (EnterpriseClient i) (dnsServerIp dir) 53 512 []
          (udpFloodStartTime + of_nat i * 0.1) udpFloodStopTime])"

definition icmp_flood :: "directory \<Rightarrow> rat \<Rightarrow> rat \<Rightarrow> nat \<Rightarrow> nat \<Rightarrow> event list" where
  "icmp_flood dir icmpFloodStartTime icmpFloodStopTime icmpFloodClients n =
     for_each (min icmpFloodClients n) (\<lambda>i.
       [install IcmpFlood UdpEchoClientHelper Udp (WifiSta i) (coreRouterIp dir) 0 64 []
          (icmpFloodStartTime + of_nat i * 0.1) icmpFloodStopTime])"

definition portsToScan :: "nat list" where
  "portsToScan = [21, 22, 25, 53, 80, 110, 123, 143, 179, 443, 500, 587]"

text \<open>The inner loop is \<open>for (uint16_t port : portsToScan)\<close>: the stagger term is the
  port number times 0.01.\<close>

definition port_scan ::
  "directory \<Rightarrow> rat \<Rightarrow> rat \<Rightarrow> nat \<Rightarrow> nat \<Rightarrow> nat list \<Rightarrow> event list" where
  "port_scan dir scanStartTime scanStopTime numScanClients n ports =
     for_each (min numScanClients n) (\<lambda>i. concat (map (\<lambda>port.
       [install PortScan BulkSendHelper Tcp (WifiSta i) (targetServerIp dir) port 512 []
          (scanStartTime + of_nat i * 0.1 + of_nat port * 0.01) scanStopTime]) ports))"

definition fake_http_server :: "event list" where
  "fake_http_server =
     [install FakeHttpServer PacketSinkHelper Tcp (DmzServer 1) GetAny 8081 0 [] 10.0 450.0]"

definition mitm_redirect :: "directory \<Rightarrow> rat \<Rightarrow> rat \<Rightarrow> nat \<Rightarrow> nat \<Rightarrow> event list" where
  "mitm_redirect dir redirectStartTime redirectStopTime numMitmClients n =
     for_each (min numMitmClients n) (\<lambda>i.
       [install Mitm BulkSendHelper Tcp (EnterpriseClient i) (fakeServerIp dir) 8081
          (1024 * 1024) [] (redirectStartTime + of_nat i * 0.1) redirectStopTime])"

definition ftp_brute_force :: "directory \<Rightarrow> rat \<Rightarrow> rat \<Rightarrow> nat \<Rightarrow> nat \<Rightarrow> event list" where
  "ftp_brute_force dir bruteForceStartTime bruteForceStopTime numAttackClients n =
     for_each (min numAttackClients n) (\<lambda>i. for_each 10 (\<lambda>attempt.
       [install FtpBruteForce BulkSendHelper Tcp (RemoteClient i) (ftpServerIp dir) 21 512 []
          (bruteForceStartTime + of_nat i * 0.1 + of_nat attempt * 0.5)
          bruteForceStopTime]))"

definition sqlPayloads :: "string list" where
  "sqlPayloads =
     [''' OR '1'='1'',
      ''' OR 'a'='a'',
      ''' OR 1=1 --'',
      '''; DROP TABLE users; --'',
      '''; SELECT * FROM users WHERE 'a'='a'',
      ''' UNION SELECT NULL, NULL, NULL --'']"

definition sql_injection ::
  "directory \<Rightarrow> rat \<Rightarrow> rat \<Rightarrow> nat \<Rightarrow> nat \<Rightarrow> string list \<Rightarrow> event list" where
  "sql_injection dir sqlInjectionStartTime sqlInjectionStopTime sqlInjectionClients n payloads =
     for_each (min sqlInjectionClients n) (\<lambda>i. for_each (length payloads) (\<lambda>payloadIndex.
       [install SqlInjection OnOffHelper Tcp (EnterpriseClient i) (httpServerIp dir) 80
          (length (payloads ! payloadIndex) + 50) []
          (sqlInjectionStartTime + of_nat i * 0.1 + of_nat payloadIndex * 0.5)
          sqlInjectionStopTime]))"

definition ssh_brute_force :: "directory \<Rightarrow> rat \<Rightarrow> rat \<Rightarrow> nat \<Rightarrow> nat \<Rightarrow> event list" where
  "ssh_brute_force dir sshBruteForceStartTime sshBruteForceStopTime sshAttackClients n =
     for_each (min sshAttackClients n) (\<lambda>i. for_each 20 (\<lambda>attempt.
       [install SshBruteForce BulkSendHelper Tcp (RemoteClient i) (sshServerIp dir) 22 512 []
          (sshBruteForceStartTime + of_nat i * 0.2 + of_nat attempt * 0.2)
          sshBruteForceStopTime]))"

definition ftp_login_flood :: "directory \<Rightarrow> rat \<Rightarrow> rat \<Rightarrow> nat \<Rightarrow> nat \<Rightarrow> event list" where
  "ftp_login_flood dir ftpBruteForceStartTime ftpBruteForceStopTime ftpAttackClients n =
     for_each (min ftpAttackClients n) (\<lambda>i. for_each 30 (\<lambda>attempt.
       [install FtpLoginFlood BulkSendHelper Tcp (EnterpriseClient i) (ftpServerIp dir) 21
          1024 []
          (ftpBruteForceStartTime + of_nat i * 0.1 + of_nat attempt * 0.1)
          ftpBruteForceStopTime]))"

definition cnc_server :: "rat \<Rightarrow> rat \<Rightarrow> event list" where
  "cnc_server cncStart cncStop =
     [install CncServer PacketSinkHelper Tcp (DmzServer 4) GetAny 9999 0 [] cncStart cncStop]"

definition bot_comm :: "directory \<Rightarrow> rat \<Rightarrow> rat \<Rightarrow> nat \<Rightarrow> nat \<Rightarrow> event list" where
  "bot_comm dir botCommStartTime botCommStopTime botClients n =
     for_each (min botClients n) (\<lambda>i.
       [install BotComm OnOffHelper Tcp (WifiSta i) (cncServerIp dir) 9999 128 []
          (botCommStartTime + of_nat i * 0.2) botCommStopTime])"

definition vpn_flood :: "directory \<Rightarrow> rat \<Rightarrow> rat \<Rightarrow> nat \<Rightarrow> nat \<Rightarrow> event list" where
  "vpn_flood dir vpnFloodStartTime vpnFloodStopTime vpnFloodClients n =
     for_each (min vpnFloodClients n) (\<lambda>i.
       [install VpnFlood OnOffHelper Tcp (RemoteClient i) (vpnServerIp dir) 443 1024 []
          (vpnFloodStartTime + of_nat i * 0.1) vpnFloodStopTime])"

definition credential_stuffing :: "directory \<Rightarrow> rat \<Rightarrow> rat \<Rightarrow> nat \<Rightarrow> nat \<Rightarrow> event list" where
  "credential_stuffing dir credentialStuffingStartTime credentialStuffingStopTime
       stuffingClients n =
     for_each (min stuffingClients n) (\<lambda>i. for_each 15 (\<lambda>attempt.
       [install CredentialStuffing BulkSendHelper Tcp (RemoteClient i) (vpnServerIp dir) 443
          512 []
          (credentialStuffingStartTime + of_nat i * 0.2 + of_nat attempt * 0.1)
          credentialStuffingStopTime]))"

definition xssPayloads :: "string list" where
  "xssPayloads =
     [''GET /search?q=<script>alert('XSS1')</script> HTTP/1.1'',
      ''GET /profile?name=<script>alert('XSS2')</script> HTTP/1.1'',
      ''GET /comments?id=1'><script>alert('XSS3')</script> HTTP/1.1'',
      ''GET /index.html?page=<script>alert('XSS4')</script> HTTP/1.1'']"

definition xss_attack ::
  "directory \<Rightarrow> rat \<Rightarrow> rat \<Rightarrow> nat \<Rightarrow> nat \<Rightarrow> string list \<Rightarrow> event list" where
  "xss_attack dir xssStartTime xssStopTime xssClients n payloads =
     for_each (min xssClients n) (\<lambda>i. for_each (length payloads) (\<lambda>payloadIndex.
       [install Xss OnOffHelper Tcp (EnterpriseClient i) (httpServerIp dir) 80
          (length (payloads ! payloadIndex) + 50) []
          (xssStartTime + of_nat i * 0.1 + of_nat payloadIndex * 0.2) xssStopTime]))"

definition arp_spoof :: "directory \<Rightarrow> rat \<Rightarrow> rat \<Rightarrow> event list" where
  "arp_spoof dir arpPoisonStartTime arpPoisonStopTime =
     [install ArpSpoof OnOffHelper Udp (EnterpriseClient 2) (targetIp dir) 80 128 []
        arpPoisonStartTime arpPoisonStopTime]"

definition zero_day :: "directory \<Rightarrow> rat \<Rightarrow> rat \<Rightarrow> event list" where
  "zero_day dir zeroDayStartTime zeroDayStopTime =
     [install ZeroDay OnOffHelper Tcp (EnterpriseClient 1) (targetIp dir) 80 1024 []
        zeroDayStartTime zeroDayStopTime,
      install ZeroDay OnOffHelper Tcp (EnterpriseClient 1) (targetIp dir) 443 1024 []
        zeroDayStartTime zeroDayStopTime]"

definition ddosAttackers :: "node list" where
  "ddosAttackers = [EnterpriseClient 0, WifiSta 1, RemoteClient 2]"

definition ddos_attack :: "directory \<Rightarrow> rat \<Rightarrow> rat \<Rightarrow> node list \<Rightarrow> event list" where
  "ddos_attack dir ddosStartTime ddosStopTime attackers =
     for_each (length attackers) (\<lambda>i.
       [install Ddos OnOffHelper Udp (attackers ! i) (targetIp dir) 80 1024 []
          (ddosStartTime + of_nat i * 0.5) ddosStopTime])"

subsection \<open>The whole build\<close>

text \<open>Every application \<open>main\<close> installs, in the order of the source, with the windows
  and client counts the source declares.\<close>

definition main_timeline :: "directory \<Rightarrow> draws \<Rightarrow> event list" where
  "main_timeline dir d =
     servers appStartTime appStopTime
     @ enterprise_http_https dir d enterpriseClients_N appStopTime
     @ enterprise_email dir d enterpriseClients_N appStopTime
     @ enterprise_dns dir d enterpriseClients_N appStopTime
     @ enterprise_ftp dir d enterpriseClients_N appStopTime
     @ enterprise_ssh dir d enterpriseClients_N appStopTime
     @ enterprise_echo dir d enterpriseClients_N appStopTime
     @ enterprise_stream dir d enterpriseClients_N appStopTime
     @ wifi_http_https dir d wifiStaNodes_N appStopTime
     @ wifi_email dir d wifiStaNodes_N appStopTime
     @ wifi_dns dir d wifiStaNodes_N appStopTime
     @ wifi_stream dir d wifiStaNodes_N appStopTime
     @ wifi_ftp dir d wifiStaNodes_N appStopTime
     @ wifi_ssh dir d wifiStaNodes_N appStopTime
     @ wifi_echo dir d wifiStaNodes_N appStopTime
     @ remote_apps dir d remoteClients_N appStopTime
     @ syn_flood dir 60.0 100.0 3 remoteClients_N
     @ udp_flood dir 100.0 125.0 3 enterpriseClients_N
     @ icmp_flood dir 205.0 255.0 3 wifiStaNodes_N
     @ port_scan dir 150.0 168.0 3 wifiStaNodes_N portsToScan
     @ fake_http_server
     @ mitm_redirect dir 262.0 313.0 2 enterpriseClients_N
     @ ftp_brute_force dir 347.0 367.0 3 remoteClients_N
     @ sql_injection dir 368.0 433.0 3 enterpriseClients_N sqlPayloads
     @ ssh_brute_force dir 169.0 184.0 3 remoteClients_N
     @ ftp_login_flood dir 483.0 533.0 2 enterpriseClients_N
     @ cnc_server 20.0 700.0
     @ bot_comm dir 546.0 607.0 3 wifiStaNodes_N
     @ vpn_flood dir 608.0 633.0 3 remoteClients_N
     @ credential_stuffing dir 444.0 483.0 3 remoteClients_N
     @ xss_attack dir 728.0 788.0 2 enterpriseClients_N xssPayloads
     @ arp_spoof dir 321.0 346.0
     @ zero_day dir 933.0 983.0
     @ ddos_attack dir 583.0 608.0 ddosAttackers"

text \<open>\<open>Simulator::Stop(Seconds(appStopTime))\<close>.\<close>

definition simulator_stop :: rat where
  "simulator_stop = appStopTime"

text \<open>The build: the address assignment, then the applications.\<close>

definition build :: "draws \<Rightarrow> error + event list" where
  "build d = (case main_directory of Inl e \<Rightarrow> Inl e | Inr dir \<Rightarrow> Inr (main_timeline dir d))"

definition main_dir :: directory where
  "main_dir = projr main_directory"

subsection \<open>Ranges of the draws\<close>

text \<open>
  The ranges the source configures for the four objects whose draws enter a start time:
  \<open>randInterRequestTime\<close> (exponential, mean 0.5), \<open>emailIntervalRand\<close> (exponential,
  mean 30), \<open>ftpTransferIntervalRand\<close> (exponential, mean 1) and \<open>sshIdleTimeRand\<close>
  (uniform between 1 and 5). An exponential draw of the simulator library is
  \<open>- mean * ln u\<close> for a \<open>u\<close> that its 32-bit generator keeps above \<open>2\<^sup>-\<^sup>3\<^sup>2\<close>, hence at
  most \<open>23 * mean\<close>; the library is not part of the sources, and the bound is taken
  as the range of such a draw.
\<close>

definition exponential :: "draws \<Rightarrow> gen \<Rightarrow> rat \<Rightarrow> bool" where
  "exponential d g mean = (\<forall>k. 0 \<le> GetValue d g k \<and> GetValue d g k \<le> 23 * mean)"

definition uniform :: "draws \<Rightarrow> gen \<Rightarrow> rat \<Rightarrow> rat \<Rightarrow> bool" where
  "uniform d g lo hi = (\<forall>k. lo \<le> GetValue d g k \<and> GetValue d g k \<le> hi)"

definition draws_in_range :: "draws \<Rightarrow> bool" where
  "draws_in_range d =
     (exponential d RandInterRequestTime 0.5 \<and> exponential d EmailIntervalRand 30.0
      \<and> exponential d FtpTransferIntervalRand 1.0 \<and> uniform d SshIdleTimeRand 1.0 5.0)"

text \<open>Two runs that draw the same values everywhere.\<close>

definition same_draws :: "draws \<Rightarrow> draws \<Rightarrow> bool" where
  "same_draws d1 d2 =
     ((\<forall>g k. GetValue d1 g k = GetValue d2 g k)
      \<and> (\<forall>g k. GetInteger d1 g k = GetInteger d2 g k)
      \<and> (\<forall>k. c_rand d1 k = c_rand d2 k))"

subsection \<open>Observations on events\<close>

text \<open>The topology of an event: its source, its target address and port, its provenance.\<close>

definition topology :: "event \<Rightarrow> node \<times> ipv4 \<times> nat \<times> origin" where
  "topology e = (source e, target e, port e, provenance e)"

text \<open>What no draw changes: everything but the start, the sizes and the sampled
  attributes, and, for an e-mail client, the port.\<close>

definition skeleton ::
  "event \<Rightarrow> origin \<times> app_helper \<times> transport \<times> node \<times> ipv4 \<times> nat option \<times> rat" where
  "skeleton e =
     (provenance e, application e, socket e, source e, target e,
      (if provenance e = Email then None else Some (port e)), stop e)"

text \<open>A server application, and the address its clients reach it at: servers are
  installed on DMZ nodes only.\<close>

definition is_server :: "event \<Rightarrow> bool" where
  "is_server e = (application e = PacketSinkHelper \<or> application e = UdpEchoServerHelper)"

fun server_address :: "directory \<Rightarrow> node \<Rightarrow> ipv4 option" where
  "server_address dir (DmzServer k) = Some (GetAddress (dmzInterfaces dir) k)"
| "server_address dir _ = None"

text \<open>\<open>serves dir s e\<close>: the client \<open>e\<close> addresses the service \<open>s\<close>.\<close>

definition serves :: "directory \<Rightarrow> event \<Rightarrow> event \<Rightarrow> bool" where
  "serves dir s e =
     (is_server s \<and> \<not> is_server e \<and> server_address dir (source s) = Some (target e)
      \<and> port s = port e \<and> socket s = socket e)"

text \<open>The window of \<open>e\<close> lies in the active window of the service \<open>s\<close>: what a
  truncation to the intersection of the two leaves.\<close>

definition within_service :: "event \<Rightarrow> event \<Rightarrow> bool" where
  "within_service s e = (start s \<le> start e \<and> stop e \<le> stop s)"

text \<open>
  The timing of an application that is in order: it starts at or after the servers'
  start, not after its own stop, and stops by the global stop time; and when its port is
  the one of the fake HTTP server (8081, active from 10 to 450) or of the C&C server
  (9999, active from 20 to 700) its window lies within that server's.
\<close>

definition well_timed :: "event \<Rightarrow> bool" where
  "well_timed e =
     (appStartTime \<le> start e \<and> start e \<le> stop e \<and> stop e \<le> appStopTime
      \<and> (port e = 8081 \<longrightarrow> 10 \<le> start e \<and> stop e \<le> 450)
      \<and> (port e = 9999 \<longrightarrow> 20 \<le> start e \<and> stop e \<le> 700))"

text \<open>
  The window of a server application as the source declares it: from 10 to 450 for the
  fake HTTP server on port 8081, from 20 to 700 for the C&C server on port 9999, and from
  \<open>appStartTime\<close> to \<open>appStopTime\<close> for the servers of the DMZ on their other ports.
\<close>

definition declared_window :: "event \<Rightarrow> bool" where
  "declared_window s =
     (is_server s \<longrightarrow>
       (port s = 8081 \<and> start s = 10 \<and> stop s = 450)
       \<or> (port s = 9999 \<and> start s = 20 \<and> stop s = 700)
       \<or> (port s \<noteq> 8081 \<and> port s \<noteq> 9999 \<and> start s = appStartTime \<and> stop s = appStopTime))"

subsection \<open>Concrete inputs\<close>

text \<open>
  One run: every exponential object returns its mean and every uniform object the
  minimum of its range, each time, and \<open>rand()\<close> returns 1804289383. The second run
  differs in one draw, the protocol choice of the first enterprise client; the third
  draws no jitter from \<open>randInterRequestTime\<close>.
\<close>

definition typical_draws :: draws where
  "typical_draws =
     \<lparr>GetValue = (\<lambda>g k. case g of
          RandPayloadSize \<Rightarrow> 512 | RandInterRequestTime \<Rightarrow> 0.5
        | EmailSizeRand \<Rightarrow> 51200 | EmailIntervalRand \<Rightarrow> 30
        | DnsIntervalRand \<Rightarrow> 0.5 | DnsPacketSizeRand \<Rightarrow> 64
        | FtpFileSizeRand \<Rightarrow> 1048576 | FtpTransferIntervalRand \<Rightarrow> 1
        | SshSessionSizeRand \<Rightarrow> 512000 | SshIdleTimeRand \<Rightarrow> 1
        | IntervalRand \<Rightarrow> 0.1
        | StreamOnTimeRand \<Rightarrow> 2 | StreamOffTimeRand \<Rightarrow> 0.5 | StreamDataRateRand \<Rightarrow> 1.5
        | StreamOnTimeRandWiFi \<Rightarrow> 1.5 | StreamOffTimeRandWiFi \<Rightarrow> 0.7
        | StreamDataRateRandWiFi \<Rightarrow> 1
        | _ \<Rightarrow> 0),
      GetInteger = (\<lambda>g k. case g of
          RandProtocol \<Rightarrow> 0 | EmailProtocolRand \<Rightarrow> 0 | Remote_randProtocol \<Rightarrow> 0
        | PacketSizeRand \<Rightarrow> 128 | MaxPacketsRand \<Rightarrow> 10
        | StreamPacketSizeRand \<Rightarrow> 512 | StreamPacketSizeRandWiFi \<Rightarrow> 400
        | Wifi_httpPacketSize \<Rightarrow> 512 | Wifi_httpsPacketSize \<Rightarrow> 512
        | Wifi_emailSizeRand \<Rightarrow> 30720 | Wifi_packetSizeRand \<Rightarrow> 50
        | Wifi_ftpFileSizeRand \<Rightarrow> 512000 | Wifi_sshSessionSizeRand \<Rightarrow> 102400
        | Wifi_echoPacketSizeRand \<Rightarrow> 128
        | _ \<Rightarrow> 0),
      c_rand = (\<lambda>k. 1804289383)\<rparr>"

definition imap_draws :: draws where
  "imap_draws =
     typical_draws\<lparr>GetInteger :=
       (\<lambda>g k. if g = RandProtocol \<and> k = 0 then 1 else GetInteger typical_draws g k)\<rparr>"


text \<open>The base addresses of the source with the DMZ network moved to 10.4.1.0.\<close>

definition renumbered_dir :: directory where
  "renumbered_dir =
     projr (assign_addresses (main_bases\<lparr>dmzBase := ip 10 4 1 0\<rparr>)
              enterpriseClients_N dmzServers_N wifiStaNodes_N remoteClients_N)"

section \<open>Properties\<close>

subsection \<open>The address assignment\<close>

lemma Assign_numeral:
  "Assign (numeral k) h =
     (case NewAddress h of
        Inl e \<Rightarrow> Inl e
      | Inr (a, h') \<Rightarrow>
          (case Assign (pred_numeral k) h' of
             Inl e \<Rightarrow> Inl e
           | Inr (as, h'') \<Rightarrow> Inr (a # as, h'')))"
  by (simp add: numeral_eq_Suc)

lemma assign_vpn_links_numeral:
  "assign_vpn_links i (numeral k) =
     (if 255 < i * 4 + 20 then Inl InvalidAddress
      else case assign_net (ip 10 1 0 (i * 4 + 20)) mask30 2 of
        Inl e \<Rightarrow> Inl e
      | Inr (as, s) \<Rightarrow>
          (case assign_vpn_links (i + 1) (pred_numeral k) of
             Inl e \<Rightarrow> Inl e
           | Inr (ass, ss) \<Rightarrow> Inr (as # ass, s # ss)))"
  by (simp add: numeral_eq_Suc)

lemmas addr_defs = bind_net_def assign_net_def SetBase_def NewAddress_def subnet_of_def
  main_bases_def mask30_def mask24_def ip_def enterpriseClients_N_def dmzServers_N_def
  wifiStaNodes_N_def remoteClients_N_def Assign_numeral assign_vpn_links_numeral

lemma main_directory_value:
  "main_directory = Inr
     \<lparr>p2pInterfaces1 = [ip 10 1 0 1, ip 10 1 0 2],
      p2pInterfaces2 = [ip 10 1 0 5, ip 10 1 0 6],
      vpnInterfaces = [ip 10 1 0 9, ip 10 1 0 10],
      enterpriseInterfaces =
        [ip 10 1 1 1, ip 10 1 1 2, ip 10 1 1 3, ip 10 1 1 4, ip 10 1 1 5, ip 10 1 1 6,
         ip 10 1 1 7, ip 10 1 1 8, ip 10 1 1 9, ip 10 1 1 10, ip 10 1 1 11],
      accessToDistInterfaces = [ip 10 1 2 1, ip 10 1 2 2],
      dmzInterfaces =
        [ip 10 3 1 1, ip 10 3 1 2, ip 10 3 1 3, ip 10 3 1 4, ip 10 3 1 5, ip 10 3 1 6],
      wifiApToDistInterfaces = [ip 10 1 3 1, ip 10 1 3 2],
      apInterface = [ip 10 2 1 1],
      staInterfaces =
        [ip 10 2 1 2, ip 10 2 1 3, ip 10 2 1 4, ip 10 2 1 5, ip 10 2 1 6, ip 10 2 1 7,
         ip 10 2 1 8, ip 10 2 1 9, ip 10 2 1 10, ip 10 2 1 11],
      vpnClientInterfaces =
        [ [ip 10 1 0 21, ip 10 1 0 22], [ip 10 1 0 25, ip 10 1 0 26],
         [ip 10 1 0 29, ip 10 1 0 30], [ip 10 1 0 33, ip 10 1 0 34],
         [ip 10 1 0 37, ip 10 1 0 38], [ip 10 1 0 41, ip 10 1 0 42],
         [ip 10 1 0 45, ip 10 1 0 46], [ip 10 1 0 49, ip 10 1 0 50],
         [ip 10 1 0 53, ip 10 1 0 54], [ip 10 1 0 57, ip 10 1 0 58] ],
      subnets =
        [(ip 10 1 0 0, mask30), (ip 10 1 0 4, mask30), (ip 10 1 0 8, mask30),
         (ip 10 1 1 0, mask24), (ip 10 1 2 0, mask24), (ip 10 3 1 0, mask24),
         (ip 10 1 3 0, mask24), (ip 10 2 1 0, mask24),
         (ip 10 1 0 20, mask30), (ip 10 1 0 24, mask30), (ip 10 1 0 28, mask30),
         (ip 10 1 0 32, mask30), (ip 10 1 0 36, mask30), (ip 10 1 0 40, mask30),
         (ip 10 1 0 44, mask30), (ip 10 1 0 48, mask30), (ip 10 1 0 52, mask30),
         (ip 10 1 0 56, mask30)]\<rparr>"
  unfolding main_directory_def assign_addresses_def
  by (simp add: addr_defs)

lemma main_directory_ok: "main_directory = Inr main_dir"
  by (simp add: main_dir_def main_directory_value)

lemma main_dir_subnets:
  "subnets main_dir =
     [(ip 10 1 0 0, mask30), (ip 10 1 0 4, mask30), (ip 10 1 0 8, mask30),
      (ip 10 1 1 0, mask24), (ip 10 1 2 0, mask24), (ip 10 3 1 0, mask24),
      (ip 10 1 3 0, mask24), (ip 10 2 1 0, mask24),
      (ip 10 1 0 20, mask30), (ip 10 1 0 24, mask30), (ip 10 1 0 28, mask30),
      (ip 10 1 0 32, mask30), (ip 10 1 0 36, mask30), (ip 10 1 0 40, mask30),
      (ip 10 1 0 44, mask30), (ip 10 1 0 48, mask30), (ip 10 1 0 52, mask30),
      (ip 10 1 0 56, mask30)]"
  by (simp add: main_dir_def main_directory_value)

lemma main_dir_dmz:
  "dmzInterfaces main_dir =
     [ip 10 3 1 1, ip 10 3 1 2, ip 10 3 1 3, ip 10 3 1 4, ip 10 3 1 5, ip 10 3 1 6]"
  by (simp add: main_dir_def main_directory_value)

lemma main_containers_hold_indices:
  "length (dmzInterfaces main_dir) = 6 \<and> length (vpnInterfaces main_dir) = 2
   \<and> length (p2pInterfaces1 main_dir) = 2"
  by (simp add: main_dir_def main_directory_value)

lemma build_eq: "build d = Inr (main_timeline main_dir d)"
  by (simp add: build_def main_directory_ok)

lemma separate_disjoint:
  assumes "separate s t"
  shows "subnet_range s \<inter> subnet_range t = {}"
proof -
  have False if a: "a AND snd s = fst s" and b: "a AND snd t = fst t" for a
  proof -
    have "fst s AND snd t = (a AND snd s) AND snd t" using a by simp
    also have "\<dots> = (a AND snd t) AND snd s" by (simp add: ac_simps)
    also have "\<dots> = fst t AND snd s" using b by simp
    finally show False using assms by (simp add: separate_def)
  qed
  then show ?thesis unfolding subnet_range_def by blast
qed

lemma separate_sym: "separate s t \<Longrightarrow> separate t s"
  by (auto simp: separate_def)

lemma pairwise_separate_nth:
  "pairwise_separate ss \<Longrightarrow> i < length ss \<Longrightarrow> j < length ss \<Longrightarrow> i < j
     \<Longrightarrow> separate (ss ! i) (ss ! j)"
proof (induction ss arbitrary: i j)
  case Nil
  then show ?case by simp
next
  case (Cons s ss)
  show ?case
  proof (cases i)
    case 0
    with Cons.prems obtain j' where j': "j = Suc j'" "j' < length ss"
      by (cases j) auto
    from Cons.prems have "list_all (separate s) ss" by simp
    with j' have "separate s (ss ! j')" by (simp add: list_all_length)
    with 0 j' show ?thesis by simp
  next
    case (Suc i')
    with Cons.prems obtain j' where j': "j = Suc j'" "j' < length ss" "i' < j'"
      by (cases j) auto
    from Cons.prems have "pairwise_separate ss" by simp
    with Cons.IH [of i' j'] Suc j' Cons.prems show ?thesis by simp
  qed
qed

lemma main_subnets_separate: "pairwise_separate (subnets main_dir)"
  by (simp add: main_dir_subnets mask30_def mask24_def ip_def separate_def)

text \<open>
  C5. The eighteen subnets that the build assigns addresses in (the three /30 links of
  the core router and the VPN server, the five /24 networks and the ten /30 links of the
  remote clients) are pairwise disjoint: no address lies in the range of two of them.
\<close>

theorem subnets_do_not_intersect:
  "main_directory = Inr main_dir \<and> length (subnets main_dir) = 18
   \<and> (\<forall>i<18. \<forall>j<18. i \<noteq> j \<longrightarrow>
         subnet_range (subnets main_dir ! i) \<inter> subnet_range (subnets main_dir ! j) = {})"
proof (intro conjI allI impI)
  show "main_directory = Inr main_dir" by (rule main_directory_ok)
  show len: "length (subnets main_dir) = 18" by (simp add: main_dir_subnets)
  fix i j :: nat
  assume ij: "i < 18" "j < 18" "i \<noteq> j"
  let ?ss = "subnets main_dir"
  show "subnet_range (?ss ! i) \<inter> subnet_range (?ss ! j) = {}"
  proof (cases "i < j")
    case True
    with ij len have "separate (?ss ! i) (?ss ! j)"
      by (intro pairwise_separate_nth main_subnets_separate) simp_all
    then show ?thesis by (rule separate_disjoint)
  next
    case False
    with ij have "j < i" by simp
    with ij len have "separate (?ss ! j) (?ss ! i)"
      by (intro pairwise_separate_nth main_subnets_separate) simp_all
    then have "separate (?ss ! i) (?ss ! j)" by (rule separate_sym)
    then show ?thesis by (rule separate_disjoint)
  qed
qed

theorem subnets_do_not_intersect_witness:
  "subnet_range (ip 10 1 0 0, mask30) \<inter> subnet_range (ip 10 1 0 20, mask30) = {}"
  using subnets_do_not_intersect [THEN conjunct2, THEN conjunct2, rule_format, of 0 8]
  by (simp add: main_dir_subnets)

lemma new_network_after_first_block:
  "map_sum id (\<lambda>(as, h). (as, network (NewNetwork h))) (Assign 2 (SetBase (ip 10 1 0 0) mask30))
     = Inr ([ip 10 1 0 1, ip 10 1 0 2], ip 10 1 0 4)"
  by (simp add: addr_defs NewNetwork_def)

lemma split_by_mask: "a = (a AND NOT m) OR (a AND m)" for a m :: ipv4
  by (rule bit_eqI) (auto simp add: bit_and_iff bit_or_iff bit_not_iff)

lemma low_two_bits: "a AND 3 \<in> {0, 1, 2, 3}" for a :: ipv4
proof -
  have "a AND 3 \<le> 3" by (rule word_and_le1)
  then have "unat (a AND 3) \<le> 3" by (simp add: word_le_nat_alt)
  then have "unat (a AND 3) = unat (0 :: ipv4) \<or> unat (a AND 3) = unat (1 :: ipv4)
     \<or> unat (a AND 3) = unat (2 :: ipv4) \<or> unat (a AND 3) = unat (3 :: ipv4)"
    by simp linarith
  then show ?thesis
    by (simp only: word_unat_eq_iff [symmetric]) blast
qed

lemma slash30_members:
  assumes "a \<in> subnet_range (n, mask30)"
  shows "a \<in> {n, n OR 1, n OR 2, n OR 3}"
proof -
  have m: "mask30 = NOT 3" by (simp add: mask30_def ip_def)
  from assms have n: "a AND NOT 3 = n"
    by (simp only: subnet_range_def m mem_Collect_eq fst_conv snd_conv)
  from split_by_mask [of a 3] have "a = (a AND NOT 3) OR (a AND 3)" .
  then have "a = n OR (a AND 3)" by (simp only: n)
  with low_two_bits [of a] show ?thesis by auto
qed

lemma first_two_ranges:
  "subnet_range (ip 10 1 0 0, mask30) = {ip 10 1 0 0, ip 10 1 0 1, ip 10 1 0 2, ip 10 1 0 3}"
  "subnet_range (ip 10 1 0 4, mask30) = {ip 10 1 0 4, ip 10 1 0 5, ip 10 1 0 6, ip 10 1 0 7}"
proof -
  show "subnet_range (ip 10 1 0 0, mask30) = {ip 10 1 0 0, ip 10 1 0 1, ip 10 1 0 2, ip 10 1 0 3}"
  proof (intro set_eqI iffI)
    fix a assume "a \<in> subnet_range (ip 10 1 0 0, mask30)"
    from slash30_members [OF this]
    show "a \<in> {ip 10 1 0 0, ip 10 1 0 1, ip 10 1 0 2, ip 10 1 0 3}"
      by (auto simp: ip_def)
  next
    fix a assume "a \<in> {ip 10 1 0 0, ip 10 1 0 1, ip 10 1 0 2, ip 10 1 0 3}"
    then show "a \<in> subnet_range (ip 10 1 0 0, mask30)"
      by (auto simp: subnet_range_def mask30_def ip_def)
  qed
  show "subnet_range (ip 10 1 0 4, mask30) = {ip 10 1 0 4, ip 10 1 0 5, ip 10 1 0 6, ip 10 1 0 7}"
  proof (intro set_eqI iffI)
    fix a assume "a \<in> subnet_range (ip 10 1 0 4, mask30)"
    from slash30_members [OF this]
    show "a \<in> {ip 10 1 0 4, ip 10 1 0 5, ip 10 1 0 6, ip 10 1 0 7}"
      by (auto simp: ip_def)
  next
    fix a assume "a \<in> {ip 10 1 0 4, ip 10 1 0 5, ip 10 1 0 6, ip 10 1 0 7}"
    then show "a \<in> subnet_range (ip 10 1 0 4, mask30)"
      by (auto simp: subnet_range_def mask30_def ip_def)
  qed
qed

text \<open>
  C7. The build starts from base 10.1.0.0 and its first two subnets are 10.1.0.0/30 and
  then 10.1.0.4/30, in that order: the four addresses from 10.1.0.0 and the four from
  10.1.0.4. No draw and no input enters the address assignment, so every run yields them.
\<close>

theorem first_two_subnets:
  "main_directory = Inr main_dir
   \<and> take 2 (subnets main_dir) = [(ip 10 1 0 0, mask30), (ip 10 1 0 4, mask30)]
   \<and> map subnet_range (take 2 (subnets main_dir)) =
        [{ip 10 1 0 0, ip 10 1 0 1, ip 10 1 0 2, ip 10 1 0 3},
         {ip 10 1 0 4, ip 10 1 0 5, ip 10 1 0 6, ip 10 1 0 7}]"
proof -
  have t: "take 2 (subnets main_dir) = [(ip 10 1 0 0, mask30), (ip 10 1 0 4, mask30)]"
    by (simp add: main_dir_subnets)
  show ?thesis
    by (simp only: t main_directory_ok first_two_ranges list.map simp_thms)
qed

subsection \<open>Loops\<close>

lemma for_each_all:
  "(\<forall>e\<in>set (for_each n body). P e) \<longleftrightarrow> (\<forall>i<n. \<forall>e\<in>set (body i). P e)"
  by (auto simp: for_each_def)

lemma for_each_0: "for_each 0 body = []"
  by (simp add: for_each_def)

lemma for_each_Suc: "for_each (Suc n) body = for_each n body @ body n"
  by (simp add: for_each_def)

lemma for_each_numeral:
  "for_each (numeral k) body = for_each (pred_numeral k) body @ body (pred_numeral k)"
  by (simp add: numeral_eq_Suc for_each_Suc)

lemma map_for_each: "map f (for_each n body) = for_each n (\<lambda>i. map f (body i))"
  by (simp add: for_each_def map_concat comp_def)

lemma length_for_each_uniform:
  "(\<And>i. i < n \<Longrightarrow> length (body i) = m) \<Longrightarrow> length (for_each n body) = n * m"
  by (induction n) (simp_all add: for_each_0 for_each_Suc)

lemma nth_for_each_uniform:
  assumes len: "\<And>i. i < n \<Longrightarrow> length (body i) = m" and i: "i < n" and j: "j < m"
  shows "for_each n body ! (i * m + j) = body i ! j"
  using len i
proof (induction n)
  case 0
  then show ?case by simp
next
  case (Suc n)
  have l: "length (for_each n body) = n * m"
    using Suc.prems(1) by (intro length_for_each_uniform) simp
  show ?case
  proof (cases "i < n")
    case True
    then have "i * m + j < n * m"
    proof -
      from True have "Suc i \<le> n" by simp
      then have "Suc i * m \<le> n * m" by (rule mult_le_mono1)
      with j show ?thesis by simp
    qed
    with Suc True l show ?thesis by (simp add: for_each_Suc nth_append)
  next
    case False
    with Suc.prems have "i = n" by simp
    with l Suc.prems j show ?thesis by (simp add: for_each_Suc nth_append)
  qed
qed

lemmas block_defs = servers_def enterprise_http_https_def enterprise_email_def
  enterprise_dns_def enterprise_ftp_def enterprise_ssh_def enterprise_echo_def
  enterprise_stream_def wifi_http_https_def wifi_email_def wifi_dns_def wifi_stream_def
  wifi_ftp_def wifi_ssh_def wifi_echo_def remote_apps_def syn_flood_def udp_flood_def
  icmp_flood_def port_scan_def fake_http_server_def mitm_redirect_def ftp_brute_force_def
  sql_injection_def ssh_brute_force_def ftp_login_flood_def cnc_server_def bot_comm_def
  vpn_flood_def credential_stuffing_def xss_attack_def arp_spoof_def zero_day_def
  ddos_attack_def

lemmas count_defs = enterpriseClients_N_def dmzServers_N_def wifiStaNodes_N_def
  remoteClients_N_def

lemma nth_for_each_single: "i < n \<Longrightarrow> for_each n (\<lambda>i. [f i]) ! i = f i"
  using nth_for_each_uniform [of n "\<lambda>i. [f i]" 1 i 0] by simp

lemma nth_for_each_pair:
  "i < n \<Longrightarrow> for_each n (\<lambda>i. [f i, g i]) ! (2 * i) = f i"
  "i < n \<Longrightarrow> for_each n (\<lambda>i. [f i, g i]) ! (2 * i + 1) = g i"
  using nth_for_each_uniform [of n "\<lambda>i. [f i, g i]" 2 i 0]
    nth_for_each_uniform [of n "\<lambda>i. [f i, g i]" 2 i 1]
  by (simp_all add: mult.commute)

lemma for_each_pair_0: "0 < n \<Longrightarrow> for_each n (\<lambda>i. [f i, g i]) ! 0 = f 0"
  using nth_for_each_pair(1) [of 0 n f g] by simp

lemma for_each_single_0: "0 < n \<Longrightarrow> for_each n (\<lambda>i. [f i]) ! 0 = f 0"
  using nth_for_each_single [of 0 n f] by simp

subsection \<open>Windows\<close>

lemmas timed_defs = well_timed_def install_def appStartTime_def appStopTime_def

lemma exponentialD:
  "exponential d g mean \<Longrightarrow> 0 \<le> GetValue d g k \<and> GetValue d g k \<le> 23 * mean"
  by (simp add: exponential_def)

lemma uniformD: "uniform d g lo hi \<Longrightarrow> lo \<le> GetValue d g k \<and> GetValue d g k \<le> hi"
  by (simp add: uniform_def)

lemma product_bound:
  fixes x :: rat
  assumes "j \<le> n" "0 \<le> x" "x \<le> b"
  shows "0 \<le> rat_of_nat j * x \<and> rat_of_nat j * x \<le> rat_of_nat n * b"
proof
  show "0 \<le> rat_of_nat j * x" using assms by simp
  have "rat_of_nat j \<le> rat_of_nat n" using assms by simp
  then show "rat_of_nat j * x \<le> rat_of_nat n * b"
    using assms by (intro mult_mono) simp_all
qed

lemma email_port_not_special [simp]:
  "email_port c \<noteq> 8081" "email_port c \<noteq> 9999"
  by (simp_all add: email_port_def)

lemma timed_servers: "\<forall>e\<in>set (servers appStartTime appStopTime). well_timed e"
  by (simp add: servers_def timed_defs)

lemma timed_enterprise_http_https:
  assumes "draws_in_range d"
  shows "\<forall>e\<in>set (enterprise_http_https dir d enterpriseClients_N appStopTime). well_timed e"
proof -
  have r: "0 \<le> GetValue d RandInterRequestTime k \<and> GetValue d RandInterRequestTime k \<le> 23 / 2" for k
    using assms exponentialD [of d RandInterRequestTime "0.5" k] by (simp add: draws_in_range_def)
  show ?thesis
    unfolding enterprise_http_https_def for_each_all count_defs
    apply (intro allI impI)
    subgoal for i
      using r [of "2 * i"] r [of "2 * i + 1"] by (simp add: timed_defs)
    done
qed

lemma timed_enterprise_email:
  assumes "draws_in_range d"
  shows "\<forall>e\<in>set (enterprise_email dir d enterpriseClients_N appStopTime). well_timed e"
proof -
  have r: "0 \<le> GetValue d EmailIntervalRand k \<and> GetValue d EmailIntervalRand k \<le> 690" for k
    using assms exponentialD [of d EmailIntervalRand "30.0" k] by (simp add: draws_in_range_def)
  show ?thesis
    unfolding enterprise_email_def for_each_all count_defs
    apply (intro allI impI)
    subgoal for i j
      using r [of "10 * i + j"] by (simp add: timed_defs)
    done
qed

lemma timed_enterprise_dns:
  "\<forall>e\<in>set (enterprise_dns dir d enterpriseClients_N appStopTime). well_timed e"
  unfolding enterprise_dns_def for_each_all count_defs
  apply (intro allI impI)
  subgoal for i j
    by (simp add: timed_defs dnsRequestCount_def)
  done

lemma timed_enterprise_ftp:
  assumes "draws_in_range d"
  shows "\<forall>e\<in>set (enterprise_ftp dir d enterpriseClients_N appStopTime). well_timed e"
proof -
  have r: "0 \<le> GetValue d FtpTransferIntervalRand k \<and> GetValue d FtpTransferIntervalRand k \<le> 23" for k
    using assms exponentialD [of d FtpTransferIntervalRand "1.0" k] by (simp add: draws_in_range_def)
  have p: "0 \<le> rat_of_nat j * GetValue d FtpTransferIntervalRand k
           \<and> rat_of_nat j * GetValue d FtpTransferIntervalRand k \<le> 115"
    if "j < ftpTransferCount i" for i j k
  proof -
    have "j \<le> 5" using that by (simp add: ftpTransferCount_def)
    from product_bound [OF this, of "GetValue d FtpTransferIntervalRand k" 23] r [of k]
    show ?thesis by simp
  qed
  show ?thesis
    unfolding enterprise_ftp_def for_each_all count_defs
    apply (intro allI impI)
    subgoal for i j
      using p [of j i "drawn_before ftpTransferCount i + j"] by (simp add: timed_defs)
    done
qed

lemma timed_enterprise_ssh:
  assumes "draws_in_range d"
  shows "\<forall>e\<in>set (enterprise_ssh dir d enterpriseClients_N appStopTime). well_timed e"
proof -
  have r: "0 \<le> GetValue d SshIdleTimeRand k \<and> GetValue d SshIdleTimeRand k \<le> 5" for k
    using assms uniformD [of d SshIdleTimeRand "1.0" "5.0" k] by (simp add: draws_in_range_def)
  have p: "0 \<le> rat_of_nat j * GetValue d SshIdleTimeRand k
           \<and> rat_of_nat j * GetValue d SshIdleTimeRand k \<le> 20"
    if "j < sshSessionCount i" for i j k
  proof -
    have "j \<le> 4" using that by (simp add: sshSessionCount_def)
    from product_bound [OF this, of "GetValue d SshIdleTimeRand k" 5] r [of k]
    show ?thesis by simp
  qed
  show ?thesis
    unfolding enterprise_ssh_def for_each_all count_defs
    apply (intro allI impI)
    subgoal for i j
      using p [of j i "drawn_before sshSessionCount i + j"] by (simp add: timed_defs)
    done
qed

lemma timed_remote_apps:
  "\<forall>e\<in>set (remote_apps dir d remoteClients_N appStopTime). well_timed e"
proof -
  have m: "r mod 15 < 15" "r mod 20 < 20" "r mod 10 < 10" for r :: nat
    by simp_all
  show ?thesis
    unfolding remote_apps_def for_each_all count_defs
    apply (intro allI impI)
    subgoal for i
      apply (simp add: timed_defs Let_def)
      using m [of "c_rand d (14 * i + 3)"] m [of "c_rand d (14 * i + 6)"]
        m [of "c_rand d (14 * i + 8)"] m [of "c_rand d (14 * i + 11)"]
        m [of "c_rand d (14 * i + 13)"]
      apply (intro conjI; linarith)
      done
    done
qed

lemma timed_enterprise_rest:
  "\<forall>e\<in>set (enterprise_echo dir d enterpriseClients_N appStopTime). well_timed e"
  "\<forall>e\<in>set (enterprise_stream dir d enterpriseClients_N appStopTime). well_timed e"
  by (simp_all add: enterprise_echo_def enterprise_stream_def for_each_all count_defs timed_defs)

lemma timed_wifi:
  "\<forall>e\<in>set (wifi_http_https dir d wifiStaNodes_N appStopTime). well_timed e"
  "\<forall>e\<in>set (wifi_email dir d wifiStaNodes_N appStopTime). well_timed e"
  "\<forall>e\<in>set (wifi_dns dir d wifiStaNodes_N appStopTime). well_timed e"
  "\<forall>e\<in>set (wifi_stream dir d wifiStaNodes_N appStopTime). well_timed e"
  "\<forall>e\<in>set (wifi_ftp dir d wifiStaNodes_N appStopTime). well_timed e"
  "\<forall>e\<in>set (wifi_ssh dir d wifiStaNodes_N appStopTime). well_timed e"
  "\<forall>e\<in>set (wifi_echo dir d wifiStaNodes_N appStopTime). well_timed e"
  by (simp_all add: wifi_http_https_def wifi_email_def wifi_dns_def wifi_stream_def
      wifi_ftp_def wifi_ssh_def wifi_echo_def for_each_all count_defs timed_defs)

lemma timed_attacks:
  "\<forall>e\<in>set (syn_flood dir 60.0 100.0 3 remoteClients_N). well_timed e"
  "\<forall>e\<in>set (udp_flood dir 100.0 125.0 3 enterpriseClients_N). well_timed e"
  "\<forall>e\<in>set (icmp_flood dir 205.0 255.0 3 wifiStaNodes_N). well_timed e"
  "\<forall>e\<in>set (port_scan dir 150.0 168.0 3 wifiStaNodes_N portsToScan). well_timed e"
  "\<forall>e\<in>set fake_http_server. well_timed e"
  "\<forall>e\<in>set (mitm_redirect dir 262.0 313.0 2 enterpriseClients_N). well_timed e"
  "\<forall>e\<in>set (ftp_brute_force dir 347.0 367.0 3 remoteClients_N). well_timed e"
  "\<forall>e\<in>set (sql_injection dir 368.0 433.0 3 enterpriseClients_N sqlPayloads). well_timed e"
  "\<forall>e\<in>set (ssh_brute_force dir 169.0 184.0 3 remoteClients_N). well_timed e"
  "\<forall>e\<in>set (ftp_login_flood dir 483.0 533.0 2 enterpriseClients_N). well_timed e"
  "\<forall>e\<in>set (cnc_server 20.0 700.0). well_timed e"
  "\<forall>e\<in>set (bot_comm dir 546.0 607.0 3 wifiStaNodes_N). well_timed e"
  "\<forall>e\<in>set (vpn_flood dir 608.0 633.0 3 remoteClients_N). well_timed e"
  "\<forall>e\<in>set (credential_stuffing dir 444.0 483.0 3 remoteClients_N). well_timed e"
  "\<forall>e\<in>set (xss_attack dir 728.0 788.0 2 enterpriseClients_N xssPayloads). well_timed e"
  "\<forall>e\<in>set (arp_spoof dir 321.0 346.0). well_timed e"
  "\<forall>e\<in>set (zero_day dir 933.0 983.0). well_timed e"
  "\<forall>e\<in>set (ddos_attack dir 583.0 608.0 ddosAttackers). well_timed e"
  by (simp_all add: syn_flood_def udp_flood_def icmp_flood_def port_scan_def
      fake_http_server_def mitm_redirect_def ftp_brute_force_def sql_injection_def
      ssh_brute_force_def ftp_login_flood_def cnc_server_def bot_comm_def vpn_flood_def
      credential_stuffing_def xss_attack_def arp_spoof_def zero_day_def ddos_attack_def
      for_each_all count_defs timed_defs portsToScan_def sqlPayloads_def xssPayloads_def
      ddosAttackers_def)

lemma timed_main:
  assumes "draws_in_range d"
  shows "\<forall>e\<in>set (main_timeline dir d). well_timed e"
  unfolding main_timeline_def set_append ball_Un
  by (intro conjI timed_servers timed_enterprise_http_https [OF assms]
      timed_enterprise_email [OF assms] timed_enterprise_dns timed_enterprise_ftp [OF assms]
      timed_enterprise_ssh [OF assms] timed_enterprise_rest timed_wifi timed_remote_apps
      timed_attacks)

subsection \<open>Number of events\<close>

lemma length_for_each_single [simp]: "length (for_each n (\<lambda>j. [f j])) = n"
  using length_for_each_uniform [of n "\<lambda>j. [f j]" 1] by simp

lemma length_for_each_pair [simp]: "length (for_each n (\<lambda>j. [f j, g j])) = 2 * n"
  using length_for_each_uniform [of n "\<lambda>j. [f j, g j]" 2] by simp

lemma length_for_each_numeral:
  "length (for_each (numeral k) body) =
     length (for_each (pred_numeral k) body) + length (body (pred_numeral k))"
  by (simp add: for_each_numeral)

lemma length_blocks:
  "length (servers t0 t1) = 10"
  "length (enterprise_http_https dir d enterpriseClients_N t1) = 20"
  "length (enterprise_email dir d enterpriseClients_N t1) = 100"
  "length (enterprise_dns dir d enterpriseClients_N t1) = 425"
  "length (enterprise_ftp dir d enterpriseClients_N t1) = 39"
  "length (enterprise_ssh dir d enterpriseClients_N t1) = 29"
  "length (enterprise_echo dir d enterpriseClients_N t1) = 10"
  "length (enterprise_stream dir d enterpriseClients_N t1) = 10"
  "length (wifi_http_https dir d wifiStaNodes_N t1) = 20"
  "length (wifi_email dir d wifiStaNodes_N t1) = 10"
  "length (wifi_dns dir d wifiStaNodes_N t1) = 10"
  "length (wifi_stream dir d wifiStaNodes_N t1) = 10"
  "length (wifi_ftp dir d wifiStaNodes_N t1) = 10"
  "length (wifi_ssh dir d wifiStaNodes_N t1) = 10"
  "length (wifi_echo dir d wifiStaNodes_N t1) = 10"
  "length (remote_apps dir d remoteClients_N t1) = 80"
  by (simp_all add: servers_def enterprise_http_https_def enterprise_email_def
      enterprise_dns_def enterprise_ftp_def enterprise_ssh_def enterprise_echo_def
      enterprise_stream_def wifi_http_https_def wifi_email_def wifi_dns_def wifi_stream_def
      wifi_ftp_def wifi_ssh_def wifi_echo_def remote_apps_def count_defs Let_def
      length_for_each_numeral for_each_0 for_each_Suc dnsRequestCount_def ftpTransferCount_def
      sshSessionCount_def)

lemma length_attacks:
  "length (syn_flood dir a b 3 remoteClients_N) = 3"
  "length (udp_flood dir a b 3 enterpriseClients_N) = 3"
  "length (icmp_flood dir a b 3 wifiStaNodes_N) = 3"
  "length (port_scan dir a b 3 wifiStaNodes_N portsToScan) = 36"
  "length fake_http_server = 1"
  "length (mitm_redirect dir a b 2 enterpriseClients_N) = 2"
  "length (ftp_brute_force dir a b 3 remoteClients_N) = 30"
  "length (sql_injection dir a b 3 enterpriseClients_N sqlPayloads) = 18"
  "length (ssh_brute_force dir a b 3 remoteClients_N) = 60"
  "length (ftp_login_flood dir a b 2 enterpriseClients_N) = 60"
  "length (cnc_server a b) = 1"
  "length (bot_comm dir a b 3 wifiStaNodes_N) = 3"
  "length (vpn_flood dir a b 3 remoteClients_N) = 3"
  "length (credential_stuffing dir a b 3 remoteClients_N) = 45"
  "length (xss_attack dir a b 2 enterpriseClients_N xssPayloads) = 8"
  "length (arp_spoof dir a b) = 1"
  "length (zero_day dir a b) = 2"
  "length (ddos_attack dir a b ddosAttackers) = 3"
  by (simp_all add: syn_flood_def udp_flood_def icmp_flood_def port_scan_def
      fake_http_server_def mitm_redirect_def ftp_brute_force_def sql_injection_def
      ssh_brute_force_def ftp_login_flood_def cnc_server_def bot_comm_def vpn_flood_def
      credential_stuffing_def xss_attack_def arp_spoof_def zero_day_def ddos_attack_def
      count_defs portsToScan_def sqlPayloads_def xssPayloads_def ddosAttackers_def
      length_for_each_numeral for_each_0 for_each_Suc)

lemma length_main_timeline: "length (main_timeline dir d) = 1085"
  by (simp add: main_timeline_def length_blocks length_attacks)

lemma typical_draws_in_range: "draws_in_range typical_draws"
  by (simp add: draws_in_range_def exponential_def uniform_def typical_draws_def)

lemma nth_main_http_0:
  "main_timeline dir d ! 10 = enterprise_http_https dir d enterpriseClients_N appStopTime ! 0"
  by (simp add: main_timeline_def nth_append length_blocks)

lemma enterprise_http_https_0:
  "enterprise_http_https dir d enterpriseClients_N t1 ! 0 =
     install Http OnOffHelper Tcp (EnterpriseClient 0) (webServerIp dir) 80
       (trunc (GetValue d RandPayloadSize 0)) [] (5 + GetValue d RandInterRequestTime 0) t1"
  by (simp add: enterprise_http_https_def count_defs for_each_pair_0)

lemma main_timeline_10:
  "main_timeline main_dir d ! 10 =
     install Http OnOffHelper Tcp (EnterpriseClient 0) (ip 10 3 1 1) 80
       (trunc (GetValue d RandPayloadSize 0)) [] (5 + GetValue d RandInterRequestTime 0) 1500"
  by (simp add: nth_main_http_0 enterprise_http_https_0 webServerIp_def GetAddress_def
      main_dir_dmz appStopTime_def)

lemma trunc_numeral [simp]: "trunc (numeral k) = numeral k"
  by (simp add: trunc_def)

text \<open>
  C4. Every application the build installs (server, benign client or attack, for every
  client index and repeat index) starts no later than it stops, for draws within the
  ranges of their generators.
\<close>

theorem start_not_after_stop:
  assumes "draws_in_range d"
  shows "build d = Inr (main_timeline main_dir d)
         \<and> (\<forall>e\<in>set (main_timeline main_dir d). start e \<le> stop e)"
  using timed_main [OF assms, of main_dir] by (simp add: build_eq well_timed_def)

theorem start_not_after_stop_witness:
  "draws_in_range typical_draws
   \<and> main_timeline main_dir typical_draws ! 10 =
       install Http OnOffHelper Tcp (EnterpriseClient 0) (ip 10 3 1 1) 80 512 [] 5.5 1500
   \<and> start (main_timeline main_dir typical_draws ! 10) \<le> stop (main_timeline main_dir typical_draws ! 10)"
proof -
  let ?tl = "main_timeline main_dir typical_draws"
  have "?tl ! 10 \<in> set ?tl"
    by (rule nth_mem) (simp add: length_main_timeline)
  moreover have "\<forall>e\<in>set ?tl. start e \<le> stop e"
    using start_not_after_stop [OF typical_draws_in_range] by (rule conjunct2)
  ultimately have "start (?tl ! 10) \<le> stop (?tl ! 10)" by blast
  moreover have "?tl ! 10 =
      install Http OnOffHelper Tcp (EnterpriseClient 0) (ip 10 3 1 1) 80 512 [] 5.5 1500"
    by (simp add: main_timeline_10 typical_draws_def)
  ultimately show ?thesis using typical_draws_in_range by simp
qed

lemma main_timeline_cnc:
  "main_timeline dir d ! 1019 = install CncServer PacketSinkHelper Tcp (DmzServer 4) GetAny 9999 0 [] 20 700"
  by (simp add: main_timeline_def nth_append length_blocks length_attacks cnc_server_def)

lemma main_timeline_bot:
  "main_timeline dir d ! 1020 =
     install BotComm OnOffHelper Tcp (WifiSta 0) (cncServerIp dir) 9999 128 [] 546 607"
proof -
  have "main_timeline dir d ! 1020 = bot_comm dir 546.0 607.0 3 wifiStaNodes_N ! 0"
    by (simp add: main_timeline_def nth_append length_blocks length_attacks)
  then show ?thesis
    by (simp add: bot_comm_def count_defs for_each_single_0)
qed

lemma stops_main: "\<forall>e\<in>set (main_timeline dir d). stop e \<le> appStopTime"
  unfolding main_timeline_def
  apply (simp only: set_append ball_Un)
  apply (intro conjI)
  apply (simp_all add: block_defs for_each_all install_def appStopTime_def count_defs Let_def
      portsToScan_def)
  done

text \<open>
  C10. Every application the build installs is given a stop time of at most the global
  stop time of 1500 seconds, whatever is drawn, and that is the time the simulator is
  told to stop at.
\<close>

theorem stops_within_horizon:
  "build d = Inr (main_timeline main_dir d)
   \<and> (\<forall>e\<in>set (main_timeline main_dir d). stop e \<le> appStopTime)
   \<and> appStopTime = 1500 \<and> simulator_stop = appStopTime"
  using stops_main [of main_dir d] by (simp add: build_eq simulator_stop_def appStopTime_def)

theorem stops_within_horizon_witness:
  "main_timeline main_dir typical_draws ! 1019 =
       install CncServer PacketSinkHelper Tcp (DmzServer 4) GetAny 9999 0 [] 20 700
   \<and> stop (main_timeline main_dir typical_draws ! 1019) \<le> appStopTime"
proof -
  let ?tl = "main_timeline main_dir typical_draws"
  have "?tl ! 1019 \<in> set ?tl"
    by (rule nth_mem) (simp add: length_main_timeline)
  moreover have "\<forall>e\<in>set ?tl. stop e \<le> appStopTime"
    using stops_within_horizon [of typical_draws] by blast
  ultimately have "stop (?tl ! 1019) \<le> appStopTime" by blast
  then show ?thesis by (simp add: main_timeline_cnc)
qed

subsection \<open>Service windows\<close>

lemma server_window_blocks:
  "\<forall>s\<in>set (servers appStartTime appStopTime). declared_window s"
  "\<forall>s\<in>set fake_http_server. declared_window s"
  "\<forall>s\<in>set (cnc_server 20.0 700.0). declared_window s"
  "\<forall>s\<in>set (enterprise_http_https dir d n t1). declared_window s"
  "\<forall>s\<in>set (enterprise_email dir d n t1). declared_window s"
  "\<forall>s\<in>set (enterprise_dns dir d n t1). declared_window s"
  "\<forall>s\<in>set (enterprise_ftp dir d n t1). declared_window s"
  "\<forall>s\<in>set (enterprise_ssh dir d n t1). declared_window s"
  "\<forall>s\<in>set (enterprise_echo dir d n t1). declared_window s"
  "\<forall>s\<in>set (enterprise_stream dir d n t1). declared_window s"
  "\<forall>s\<in>set (wifi_http_https dir d n t1). declared_window s"
  "\<forall>s\<in>set (wifi_email dir d n t1). declared_window s"
  "\<forall>s\<in>set (wifi_dns dir d n t1). declared_window s"
  "\<forall>s\<in>set (wifi_stream dir d n t1). declared_window s"
  "\<forall>s\<in>set (wifi_ftp dir d n t1). declared_window s"
  "\<forall>s\<in>set (wifi_ssh dir d n t1). declared_window s"
  "\<forall>s\<in>set (wifi_echo dir d n t1). declared_window s"
  "\<forall>s\<in>set (remote_apps dir d n t1). declared_window s"
  "\<forall>s\<in>set (syn_flood dir a b c n). declared_window s"
  "\<forall>s\<in>set (udp_flood dir a b c n). declared_window s"
  "\<forall>s\<in>set (icmp_flood dir a b c n). declared_window s"
  "\<forall>s\<in>set (port_scan dir a b c n ports). declared_window s"
  "\<forall>s\<in>set (mitm_redirect dir a b c n). declared_window s"
  "\<forall>s\<in>set (ftp_brute_force dir a b c n). declared_window s"
  "\<forall>s\<in>set (sql_injection dir a b c n payloads). declared_window s"
  "\<forall>s\<in>set (ssh_brute_force dir a b c n). declared_window s"
  "\<forall>s\<in>set (ftp_login_flood dir a b c n). declared_window s"
  "\<forall>s\<in>set (bot_comm dir a b c n). declared_window s"
  "\<forall>s\<in>set (vpn_flood dir a b c n). declared_window s"
  "\<forall>s\<in>set (credential_stuffing dir a b c n). declared_window s"
  "\<forall>s\<in>set (xss_attack dir a b c n payloads). declared_window s"
  "\<forall>s\<in>set (arp_spoof dir a b). declared_window s"
  "\<forall>s\<in>set (zero_day dir a b). declared_window s"
  "\<forall>s\<in>set (ddos_attack dir a b attackers). declared_window s"
  by (simp_all add: block_defs for_each_all declared_window_def is_server_def install_def Let_def)

lemma server_windows_main:
  "\<forall>s\<in>set (main_timeline dir d). declared_window s"
  unfolding main_timeline_def set_append ball_Un
  by (intro conjI server_window_blocks)

text \<open>
  Clients and the services they address. The source installs every application with the
  window its block passes to \<open>Start\<close> and \<open>Stop\<close>. For the windows the source declares, and
  draws within the ranges of their generators, the window of every client lies within
  the active window of the service it addresses (same DMZ address, port and transport):
  no window of the build extends beyond the availability of its target.
\<close>

lemma within_services_main:
  assumes "draws_in_range d"
  shows "\<forall>e\<in>set (main_timeline dir d). \<forall>s\<in>set (main_timeline dir d).
           serves dir s e \<longrightarrow> within_service s e"
proof (intro ballI impI)
  fix e s
  assume e: "e \<in> set (main_timeline dir d)" and s: "s \<in> set (main_timeline dir d)"
    and sv: "serves dir s e"
  from timed_main [OF assms] e have "well_timed e" by blast
  moreover from server_windows_main s sv have
    "(port s = 8081 \<and> start s = 10 \<and> stop s = 450)
     \<or> (port s = 9999 \<and> start s = 20 \<and> stop s = 700)
     \<or> (port s \<noteq> 8081 \<and> port s \<noteq> 9999 \<and> start s = appStartTime \<and> stop s = appStopTime)"
    unfolding serves_def declared_window_def by blast
  moreover from sv have "port s = port e" by (simp add: serves_def)
  ultimately show "within_service s e"
    by (auto simp: well_timed_def within_service_def)
qed

text \<open>
  The bot clients of lines 1551 to 1570 and the C&C server they address: the window of
  the first bot, from 546 to 607, lies within the server's, from 20 to 700, in every run.
\<close>

lemma bot_window_within_cnc_window:
  "serves main_dir (main_timeline main_dir d ! 1019) (main_timeline main_dir d ! 1020)
   \<and> within_service (main_timeline main_dir d ! 1019) (main_timeline main_dir d ! 1020)"
  by (simp add: main_timeline_cnc main_timeline_bot serves_def is_server_def install_def
      cncServerIp_def within_service_def)

subsection \<open>Determinism\<close>

lemma same_draws_eq: "same_draws d1 d2 \<Longrightarrow> d1 = d2"
  for d1 d2 :: draws
proof -
  assume s: "same_draws d1 d2"
  have "GetValue d1 = GetValue d2" "GetInteger d1 = GetInteger d2" "c_rand d1 = c_rand d2"
    using s by (auto simp: same_draws_def fun_eq_iff)
  then show ?thesis by simp
qed

lemma skeleton_install:
  "skeleton (install pr h t n a p sz xs st sp) =
     (pr, h, t, n, a, (if pr = Email then None else Some p), sp)"
  by (simp add: skeleton_def install_def)

lemma skeleton_main:
  "map skeleton (main_timeline dir d1) = map skeleton (main_timeline dir d2)"
  by (simp add: main_timeline_def block_defs map_for_each skeleton_install Let_def map_concat
      comp_def)

lemma main_timeline_email_0:
  "main_timeline dir d ! 30 =
     install Email BulkSendHelper Tcp (EnterpriseClient 0) (emailServerIp dir)
       (email_port (GetInteger d RandProtocol 0))
       (trunc (GetValue d EmailSizeRand 0)) []
       (10 + GetValue d EmailIntervalRand 0) appStopTime"
proof -
  have "main_timeline dir d ! 30 = enterprise_email dir d enterpriseClients_N appStopTime ! 0"
    by (simp add: main_timeline_def nth_append length_blocks)
  also have "\<dots> = for_each 10 (\<lambda>j.
    [install Email BulkSendHelper Tcp (EnterpriseClient 0) (emailServerIp dir)
       (email_port (GetInteger d RandProtocol 0))
       (trunc (GetValue d EmailSizeRand (10 * 0 + j))) []
       (10.0 + of_nat (0 * 2) + GetValue d EmailIntervalRand (10 * 0 + j)) appStopTime]) ! 0"
    unfolding enterprise_email_def count_defs
    using nth_for_each_uniform [of 10 "\<lambda>i. for_each 10 (\<lambda>j.
    [install Email BulkSendHelper Tcp (EnterpriseClient i) (emailServerIp dir)
       (email_port (GetInteger d RandProtocol i))
       (trunc (GetValue d EmailSizeRand (10 * i + j))) []
       (10.0 + of_nat (i * 2) + GetValue d EmailIntervalRand (10 * i + j)) appStopTime])" 10 0 0]
    by simp
  finally show ?thesis by (simp add: for_each_single_0)
qed

lemma email_port_cases: "email_port c = 25 \<or> email_port c = 143 \<or> email_port c = 110"
  by (simp add: email_port_def)

lemma email_ports_main:
  "\<forall>e\<in>set (main_timeline dir d). provenance e = Email \<longrightarrow>
     port e = 25 \<or> port e = 143 \<or> port e = 110"
  unfolding main_timeline_def
  apply (simp only: set_append ball_Un)
  apply (intro conjI)
  apply (simp_all add: block_defs for_each_all install_def Let_def email_port_cases)
  done

text \<open>
  C1, as the build does it. Two runs that draw the same values build the same timeline.
  For any two runs, whatever they draw, the timelines have the same 1085 events in the
  same order with the same provenance, application kind, source, target address and stop
  time, and the same target port except for the e-mail clients, whose port is one of 25,
  143 and 110, chosen by a draw.
\<close>

theorem timeline_determined_by_draws:
  "(same_draws d1 d2 \<longrightarrow> build d1 = build d2)
   \<and> map_sum id (map skeleton) (build d1) = map_sum id (map skeleton) (build d2)
   \<and> map_sum id length (build d1) = Inr 1085
   \<and> build d1 = Inr (main_timeline main_dir d1)
   \<and> (\<forall>e\<in>set (main_timeline main_dir d1). provenance e = Email \<longrightarrow>
         port e = 25 \<or> port e = 143 \<or> port e = 110)"
  using same_draws_eq [of d1 d2] skeleton_main [of main_dir d1 d2] email_ports_main [of main_dir d1]
  by (auto simp: build_eq length_main_timeline)

theorem timeline_determined_by_draws_witness:
  "same_draws typical_draws typical_draws
   \<and> map_sum id length (build typical_draws) = Inr 1085
   \<and> map_sum id (map skeleton) (build typical_draws) = map_sum id (map skeleton) (build imap_draws)
   \<and> provenance (main_timeline main_dir imap_draws ! 30) = Email
   \<and> port (main_timeline main_dir imap_draws ! 30) = 143"
proof -
  have s: "same_draws typical_draws typical_draws" by (simp add: same_draws_def)
  have p: "provenance (main_timeline main_dir imap_draws ! 30) = Email"
    "port (main_timeline main_dir imap_draws ! 30) = 143"
    by (simp_all add: main_timeline_email_0 install_def email_port_def imap_draws_def)
  have n: "map_sum id length (build typical_draws) = Inr 1085"
    using timeline_determined_by_draws [of typical_draws typical_draws] by blast
  have k: "map_sum id (map skeleton) (build typical_draws)
           = map_sum id (map skeleton) (build imap_draws)"
    using timeline_determined_by_draws [of typical_draws imap_draws] by blast
  from s p n k show ?thesis by blast
qed

text \<open>With the port included, the topology does differ between two runs:
  the first e-mail client of the enterprise uses port 25 in one and port 143 in the other.\<close>

theorem topology_depends_on_draws:
  "map_sum id (map topology) (build typical_draws) \<noteq> map_sum id (map topology) (build imap_draws)"
proof
  assume "map_sum id (map topology) (build typical_draws) = map_sum id (map topology) (build imap_draws)"
  then have "map topology (main_timeline main_dir typical_draws)
             = map topology (main_timeline main_dir imap_draws)"
    by (simp add: build_eq)
  then have "map topology (main_timeline main_dir typical_draws) ! 30
             = map topology (main_timeline main_dir imap_draws) ! 30"
    by simp
  then have "topology (main_timeline main_dir typical_draws ! 30)
             = topology (main_timeline main_dir imap_draws ! 30)"
    by (simp add: length_main_timeline)
  then show False
    by (simp add: main_timeline_email_0 topology_def install_def email_port_def typical_draws_def
        imap_draws_def)
qed

subsection \<open>Attack schedules\<close>

lemma nth_for_each_map:
  assumes "i < n" "p < length xs"
  shows "for_each n (\<lambda>i. concat (map (\<lambda>x. [f i x]) xs)) ! (i * length xs + p) = f i (xs ! p)"
proof -
  have c: "concat (map (\<lambda>x. [f i x]) xs) = map (f i) xs" for i
    by (induction xs) simp_all
  show ?thesis
    using nth_for_each_uniform [of n "\<lambda>i. map (f i) xs" "length xs" i p] assms
    by (simp add: c)
qed

lemma nth_for_each_for_each:
  assumes "i < n" "p < m"
  shows "for_each n (\<lambda>i. for_each m (\<lambda>j. [f i j])) ! (i * m + p) = f i p"
  using nth_for_each_uniform [of n "\<lambda>i. for_each m (\<lambda>j. [f i j])" m i p] assms
  by (simp add: nth_for_each_single)

lemma length_portsToScan: "length portsToScan = 12"
  by (simp add: portsToScan_def)

lemma length_sqlPayloads: "length sqlPayloads = 6"
  by (simp add: sqlPayloads_def)

lemma length_xssPayloads: "length xssPayloads = 4"
  by (simp add: xssPayloads_def)

lemma port_scan_nth:
  assumes "a < min numScanClients n" "p < length ports"
  shows "port_scan dir scanStartTime scanStopTime numScanClients n ports ! (a * length ports + p) =
     install PortScan BulkSendHelper Tcp (WifiSta a) (targetServerIp dir) (ports ! p) 512 []
       (scanStartTime + of_nat a * 0.1 + of_nat (ports ! p) * 0.01) scanStopTime"
  unfolding port_scan_def using assms by (rule nth_for_each_map)

text \<open>
  C2, as the build does it. The port scan of 3 attackers over the 12 listed ports
  installs exactly 36 applications, one per pair of attacker and port; the one of
  attacker \<open>a\<close> and of the port at index \<open>p\<close> of the list starts at
  \<open>scanStart + a * 0.1 + port * 0.01\<close>, where \<open>port\<close> is the port number, and stops at
  the end of the scan.
\<close>

theorem port_scan_schedule:
  "length (port_scan dir 150.0 168.0 3 wifiStaNodes_N portsToScan) = 36
   \<and> (\<forall>a<3. \<forall>p<12.
        port_scan dir 150.0 168.0 3 wifiStaNodes_N portsToScan ! (a * 12 + p) =
          install PortScan BulkSendHelper Tcp (WifiSta a) (targetServerIp dir)
            (portsToScan ! p) 512 []
            (150.0 + of_nat a * 0.1 + of_nat (portsToScan ! p) * 0.01) 168.0)"
proof (intro conjI allI impI)
  show "length (port_scan dir 150.0 168.0 3 wifiStaNodes_N portsToScan) = 36"
    by (rule length_attacks)
  fix a p :: nat
  assume "a < 3" "p < 12"
  then have "a < min 3 wifiStaNodes_N" "p < length portsToScan"
    by (simp_all add: count_defs length_portsToScan)
  from port_scan_nth [OF this, of dir "150.0" "168.0"]
  show "port_scan dir 150.0 168.0 3 wifiStaNodes_N portsToScan ! (a * 12 + p) =
          install PortScan BulkSendHelper Tcp (WifiSta a) (targetServerIp dir)
            (portsToScan ! p) 512 []
            (150.0 + of_nat a * 0.1 + of_nat (portsToScan ! p) * 0.01) 168.0"
    by (simp only: length_portsToScan)
qed

theorem port_scan_schedule_witness:
  "start (port_scan main_dir 150.0 168.0 3 wifiStaNodes_N portsToScan ! (2 * 12 + 11)) = 156.07
   \<and> port (port_scan main_dir 150.0 168.0 3 wifiStaNodes_N portsToScan ! (2 * 12 + 11)) = 587
   \<and> source (port_scan main_dir 150.0 168.0 3 wifiStaNodes_N portsToScan ! (2 * 12 + 11)) = WifiSta 2"
  using port_scan_schedule [of main_dir, THEN conjunct2, rule_format, of 2 11]
  by (simp add: portsToScan_def install_def)

text \<open>With the index of the port in place of its number the start time is wrong already
  for the first attacker and the first port (port 21): 150.21, not 150.\<close>

theorem port_scan_start_not_by_index:
  "start (port_scan main_dir 150.0 168.0 3 wifiStaNodes_N portsToScan ! (0 * 12 + 0))
     \<noteq> 150.0 + of_nat 0 * 0.1 + of_nat 0 * 0.01
   \<and> start (port_scan main_dir 150.0 168.0 3 wifiStaNodes_N portsToScan ! (0 * 12 + 0)) = 150.21"
proof -
  have "0 < min 3 wifiStaNodes_N" "0 < length portsToScan"
    by (simp_all add: count_defs portsToScan_def)
  from port_scan_nth [OF this, of main_dir "150.0" "168.0"] show ?thesis
    by (simp add: portsToScan_def install_def)
qed

lemma sql_injection_nth:
  assumes "i < min sqlInjectionClients n" "p < length payloads"
  shows "sql_injection dir t0 t1 sqlInjectionClients n payloads ! (i * length payloads + p) =
     install SqlInjection OnOffHelper Tcp (EnterpriseClient i) (httpServerIp dir) 80
       (length (payloads ! p) + 50) [] (t0 + of_nat i * 0.1 + of_nat p * 0.5) t1"
  unfolding sql_injection_def using assms by (rule nth_for_each_for_each)

lemma xss_attack_nth:
  assumes "i < min xssClients n" "p < length payloads"
  shows "xss_attack dir t0 t1 xssClients n payloads ! (i * length payloads + p) =
     install Xss OnOffHelper Tcp (EnterpriseClient i) (httpServerIp dir) 80
       (length (payloads ! p) + 50) [] (t0 + of_nat i * 0.1 + of_nat p * 0.2) t1"
  unfolding xss_attack_def using assms by (rule nth_for_each_for_each)

text \<open>
  C9. The SQL injection block installs one application per attacker (3) and payload (6),
  the XSS block one per attacker (2) and payload (4). The packet size of each is the
  length of its payload string plus 50, and it starts at the start of the attack plus
  0.1 per attacker index plus 0.5 (SQL injection) or 0.2 (XSS) per payload index.
\<close>

theorem payload_injection_schedule:
  "length (sql_injection dir 368.0 433.0 3 enterpriseClients_N sqlPayloads) = 3 * 6
   \<and> length (xss_attack dir 728.0 788.0 2 enterpriseClients_N xssPayloads) = 2 * 4
   \<and> (\<forall>i<3. \<forall>p<6.
        bytes (sql_injection dir 368.0 433.0 3 enterpriseClients_N sqlPayloads ! (i * 6 + p))
          = length (sqlPayloads ! p) + 50
        \<and> start (sql_injection dir 368.0 433.0 3 enterpriseClients_N sqlPayloads ! (i * 6 + p))
          = 368.0 + of_nat i * 0.1 + of_nat p * 0.5)
   \<and> (\<forall>i<2. \<forall>p<4.
        bytes (xss_attack dir 728.0 788.0 2 enterpriseClients_N xssPayloads ! (i * 4 + p))
          = length (xssPayloads ! p) + 50
        \<and> start (xss_attack dir 728.0 788.0 2 enterpriseClients_N xssPayloads ! (i * 4 + p))
          = 728.0 + of_nat i * 0.1 + of_nat p * 0.2)"
proof (intro conjI allI impI)
  show "length (sql_injection dir 368.0 433.0 3 enterpriseClients_N sqlPayloads) = 3 * 6"
    by (simp add: length_attacks)
  show "length (xss_attack dir 728.0 788.0 2 enterpriseClients_N xssPayloads) = 2 * 4"
    by (simp add: length_attacks)
next
  fix i p :: nat
  assume "i < 3" "p < 6"
  then have "i < min 3 enterpriseClients_N" "p < length sqlPayloads"
    by (simp_all add: count_defs length_sqlPayloads)
  from sql_injection_nth [OF this, of dir "368.0" "433.0"]
  have e: "sql_injection dir 368.0 433.0 3 enterpriseClients_N sqlPayloads ! (i * 6 + p) =
     install SqlInjection OnOffHelper Tcp (EnterpriseClient i) (httpServerIp dir) 80
       (length (sqlPayloads ! p) + 50) [] (368.0 + of_nat i * 0.1 + of_nat p * 0.5) 433.0"
    by (simp only: length_sqlPayloads)
  show "bytes (sql_injection dir 368.0 433.0 3 enterpriseClients_N sqlPayloads ! (i * 6 + p))
          = length (sqlPayloads ! p) + 50"
    by (simp only: e) (simp add: install_def)
  show "start (sql_injection dir 368.0 433.0 3 enterpriseClients_N sqlPayloads ! (i * 6 + p))
          = 368.0 + of_nat i * 0.1 + of_nat p * 0.5"
    by (simp only: e) (simp add: install_def)
next
  fix i p :: nat
  assume "i < 2" "p < 4"
  then have "i < min 2 enterpriseClients_N" "p < length xssPayloads"
    by (simp_all add: count_defs length_xssPayloads)
  from xss_attack_nth [OF this, of dir "728.0" "788.0"]
  have e: "xss_attack dir 728.0 788.0 2 enterpriseClients_N xssPayloads ! (i * 4 + p) =
     install Xss OnOffHelper Tcp (EnterpriseClient i) (httpServerIp dir) 80
       (length (xssPayloads ! p) + 50) [] (728.0 + of_nat i * 0.1 + of_nat p * 0.2) 788.0"
    by (simp only: length_xssPayloads)
  show "bytes (xss_attack dir 728.0 788.0 2 enterpriseClients_N xssPayloads ! (i * 4 + p))
          = length (xssPayloads ! p) + 50"
    by (simp only: e) (simp add: install_def)
  show "start (xss_attack dir 728.0 788.0 2 enterpriseClients_N xssPayloads ! (i * 4 + p))
          = 728.0 + of_nat i * 0.1 + of_nat p * 0.2"
    by (simp only: e) (simp add: install_def)
qed

theorem payload_injection_schedule_witness:
  "bytes (sql_injection main_dir 368.0 433.0 3 enterpriseClients_N sqlPayloads ! (2 * 6 + 3)) = 73
   \<and> start (sql_injection main_dir 368.0 433.0 3 enterpriseClients_N sqlPayloads ! (2 * 6 + 3)) = 369.7
   \<and> bytes (xss_attack main_dir 728.0 788.0 2 enterpriseClients_N xssPayloads ! (1 * 4 + 2)) = 109
   \<and> start (xss_attack main_dir 728.0 788.0 2 enterpriseClients_N xssPayloads ! (1 * 4 + 2)) = 728.5"
  using payload_injection_schedule [of main_dir, THEN conjunct2, THEN conjunct2, THEN conjunct1,
      rule_format, of 2 3]
    payload_injection_schedule [of main_dir, THEN conjunct2, THEN conjunct2, THEN conjunct2,
      rule_format, of 1 2]
  by (simp add: sqlPayloads_def xssPayloads_def)

subsection \<open>Enterprise HTTP clients\<close>





subsection \<open>Literal targets\<close>

lemma renumbered_dmz:
  "dmzInterfaces renumbered_dir =
     [ip 10 4 1 1, ip 10 4 1 2, ip 10 4 1 3, ip 10 4 1 4, ip 10 4 1 5, ip 10 4 1 6]"
  unfolding renumbered_dir_def assign_addresses_def
  by (simp add: addr_defs)

text \<open>
  C6 at work. With the DMZ network renumbered to 10.4.1.0/24 the web and streaming
  server, DMZ server 0, is at 10.4.1.1 and the HTTP clients follow it there, while the
  streaming clients of the enterprise, Wi-Fi and remote loops still address 10.3.1.1;
  under the numbering of the source the two addresses coincide.
\<close>

theorem streaming_target_is_literal:
  "server_address renumbered_dir (DmzServer 0) = Some (ip 10 4 1 1)
   \<and> target (enterprise_http_https renumbered_dir typical_draws enterpriseClients_N appStopTime ! 0)
       = ip 10 4 1 1
   \<and> target (enterprise_stream renumbered_dir typical_draws enterpriseClients_N appStopTime ! 0)
       = ip 10 3 1 1
   \<and> target (wifi_stream renumbered_dir typical_draws wifiStaNodes_N appStopTime ! 0) = ip 10 3 1 1
   \<and> target (last (remote_apps renumbered_dir typical_draws remoteClients_N appStopTime))
       = ip 10 3 1 1
   \<and> server_address main_dir (DmzServer 0) = Some (ip 10 3 1 1)
   \<and> ip 10 3 1 1 \<noteq> ip 10 4 1 1"
proof (intro conjI)
  show "server_address renumbered_dir (DmzServer 0) = Some (ip 10 4 1 1)"
    by (simp add: GetAddress_def renumbered_dmz)
  show "target (enterprise_http_https renumbered_dir typical_draws enterpriseClients_N appStopTime ! 0)
          = ip 10 4 1 1"
    by (simp add: enterprise_http_https_def count_defs for_each_pair_0 install_def
        webServerIp_def GetAddress_def renumbered_dmz)
  show "target (enterprise_stream renumbered_dir typical_draws enterpriseClients_N appStopTime ! 0)
          = ip 10 3 1 1"
    by (simp add: enterprise_stream_def count_defs for_each_single_0 install_def)
  show "target (wifi_stream renumbered_dir typical_draws wifiStaNodes_N appStopTime ! 0) = ip 10 3 1 1"
    by (simp add: wifi_stream_def count_defs for_each_single_0 install_def)
  show "target (last (remote_apps renumbered_dir typical_draws remoteClients_N appStopTime))
          = ip 10 3 1 1"
    by (simp add: remote_apps_def count_defs for_each_numeral install_def Let_def)
  show "server_address main_dir (DmzServer 0) = Some (ip 10 3 1 1)"
    by (simp add: GetAddress_def main_dir_dmz)
  show "ip 10 3 1 1 \<noteq> ip 10 4 1 1"
    by (simp add: ip_def)
qed

end
